theory Spec2Isabelle
  imports Main
begin

section \<open>Python values and library functions used by scrape.py\<close>

text \<open>
  The scraper builds one dictionary per document (\<open>tmc\<close>) whose values are \<open>None\<close>,
  booleans, integers, strings, spreadsheet clock times and parsed dates. An exception
  raised inside a \<open>try\<close> block is a value \<open>Inl e\<close>; the \<open>except Exception\<close> clauses of
  the source turn it into the result \<open>None\<close> of the whole document.
  Strings are ASCII; floating point cell values are not modelled.
\<close>

datatype py_error =
  IndexError | ValueError | TypeError | KeyError | AttributeError | SelectorSyntaxError
  | RequestError | ParserError

datatype pyval =
  PNone | PBool bool | PInt int | PStr string | PTime nat nat nat | PTimestamp int

fun truthy :: "pyval \<Rightarrow> bool" where
  "truthy PNone = False"
| "truthy (PBool b) = b"
| "truthy (PInt n) = (n \<noteq> 0)"
| "truthy (PStr s) = (s \<noteq> [])"
| "truthy (PTime h m s) = True"
| "truthy (PTimestamp t) = True"

definition py_and :: "pyval \<Rightarrow> pyval \<Rightarrow> pyval" where
  "py_and a b = (if truthy a then b else a)"

definition opt_val :: "string option \<Rightarrow> pyval" where
  "opt_val x = (case x of None \<Rightarrow> PNone | Some s \<Rightarrow> PStr s)"

definition dict_get :: "(string \<rightharpoonup> pyval) \<Rightarrow> string \<Rightarrow> pyval" where
  "dict_get d k = (case d k of None \<Rightarrow> PNone | Some v \<Rightarrow> v)"

definition bind_err :: "py_error + 'a \<Rightarrow> ('a \<Rightarrow> py_error + 'b) \<Rightarrow> py_error + 'b" where
  "bind_err m f = (case m of Inl e \<Rightarrow> Inl e | Inr x \<Rightarrow> f x)"

text \<open>
  A dictionary literal evaluates its values from top to bottom; the first one that
  raises aborts the literal.
\<close>

fun dict_literal :: "(string \<times> (py_error + pyval)) list \<Rightarrow> py_error + (string \<times> pyval) list" where
  "dict_literal [] = Inr []"
| "dict_literal ((k, m) # rest) =
     (case m of Inl e \<Rightarrow> Inl e
      | Inr v \<Rightarrow> (case dict_literal rest of Inl e \<Rightarrow> Inl e | Inr kvs \<Rightarrow> Inr ((k, v) # kvs)))"

definition dict_update :: "(string \<rightharpoonup> pyval) \<Rightarrow> (string \<times> pyval) list \<Rightarrow> (string \<rightharpoonup> pyval)" where
  "dict_update d kvs = fold (\<lambda>(k, v) d. d(k \<mapsto> v)) kvs d"

subsection \<open>Characters and strings\<close>

definition is_digit :: "char \<Rightarrow> bool" where
  "is_digit c = (c \<in> set ''0123456789'')"

definition is_space :: "char \<Rightarrow> bool" where
  "is_space c = (c \<in> set [CHR 0x09, CHR 0x0A, CHR 0x0B, CHR 0x0C, CHR 0x0D,
                           CHR 0x1C, CHR 0x1D, CHR 0x1E, CHR 0x1F, CHR 0x20])"

definition digit_val :: "char \<Rightarrow> int" where
  "digit_val c = int (of_char c) - 48"

definition digit_char :: "nat \<Rightarrow> char" where
  "digit_char d = ''0123456789'' ! d"

definition lower_char :: "char \<Rightarrow> char" where
  "lower_char c =
     (case map_of (zip ''ABCDEFGHIJKLMNOPQRSTUVWXYZ'' ''abcdefghijklmnopqrstuvwxyz'') c of
        None \<Rightarrow> c | Some d \<Rightarrow> d)"

definition py_lower :: "string \<Rightarrow> string" where
  "py_lower s = map lower_char s"

definition py_strip :: "string \<Rightarrow> string" where
  "py_strip s = rev (dropWhile is_space (rev (dropWhile is_space s)))"

text \<open>\<open>s.split()\<close>: the maximal runs of non-whitespace characters.\<close>

function py_split :: "string \<Rightarrow> string list" where
  "py_split s =
     (let t = dropWhile is_space s
      in if t = [] then []
         else takeWhile (\<lambda>c. \<not> is_space c) t # py_split (dropWhile (\<lambda>c. \<not> is_space c) t))"
  by pat_completeness auto
termination
proof (relation "measure length")
  show "wf (measure length)" by simp
next
  fix s :: string and t :: string
  assume t: "t = dropWhile is_space s" and ne: "t \<noteq> []"
  have "length (dropWhile (\<lambda>c. \<not> is_space c) t) < length t"
  proof (cases t)
    case Nil
    with ne show ?thesis by simp
  next
    case (Cons a u)
    from t Cons have eq: "dropWhile is_space s = a # u"
      by simp
    have "\<not> is_space a"
      using hd_dropWhile [of is_space s] by (simp add: eq)
    then have "length (dropWhile (\<lambda>c. \<not> is_space c) t) \<le> length u"
      using Cons by (simp add: length_dropWhile_le)
    then show ?thesis using Cons by simp
  qed
  moreover have "length t \<le> length s"
    using t by (simp add: length_dropWhile_le)
  ultimately show "(dropWhile (\<lambda>c. \<not> is_space c) t, s) \<in> measure length"
    by simp
qed

declare py_split.simps [simp del]

text \<open>\<open>re.findall(r'\d+', s)\<close>: the maximal runs of digits, from left to right.\<close>

function findall_digits :: "string \<Rightarrow> string list" where
  "findall_digits s =
     (let t = dropWhile (\<lambda>c. \<not> is_digit c) s
      in if t = [] then []
         else takeWhile is_digit t # findall_digits (dropWhile is_digit t))"
  by pat_completeness auto
termination
proof (relation "measure length")
  show "wf (measure length)" by simp
next
  fix s :: string and t :: string
  assume t: "t = dropWhile (\<lambda>c. \<not> is_digit c) s" and ne: "t \<noteq> []"
  have "length (dropWhile is_digit t) < length t"
  proof (cases t)
    case Nil
    with ne show ?thesis by simp
  next
    case (Cons a u)
    from t Cons have eq: "dropWhile (\<lambda>c. \<not> is_digit c) s = a # u"
      by simp
    have "is_digit a"
      using hd_dropWhile [of "\<lambda>c. \<not> is_digit c" s] by (simp add: eq)
    then have "length (dropWhile is_digit t) \<le> length u"
      using Cons by (simp add: length_dropWhile_le)
    then show ?thesis using Cons by simp
  qed
  moreover have "length t \<le> length s"
    using t by (simp add: length_dropWhile_le)
  ultimately show "(dropWhile is_digit t, s) \<in> measure length"
    by simp
qed

declare findall_digits.simps [simp del]

text \<open>
  \<open>s.replace(old, new)\<close> for a non-empty \<open>old\<close>: every occurrence, left to right,
  without overlaps.
\<close>

function py_replace :: "string \<Rightarrow> string \<Rightarrow> string \<Rightarrow> string" where
  "py_replace old new s =
     (if s = [] \<or> old = [] then s
      else if take (length old) s = old then new @ py_replace old new (drop (length old) s)
      else hd s # py_replace old new (tl s))"
  by pat_completeness auto
termination
  by (relation "measure (\<lambda>(old, new, s). length s)") (auto simp: neq_Nil_conv)

declare py_replace.simps [simp del]

text \<open>
  \<open>int(s)\<close> on a string: surrounding whitespace is stripped, one sign is allowed, and
  the rest is decimal digits in which single underscores may separate digits. Anything
  else raises \<open>ValueError\<close>.
\<close>

fun digits_ok :: "string \<Rightarrow> bool" where
  "digits_ok [] = False"
| "digits_ok [c] = is_digit c"
| "digits_ok (c # d # cs) =
     (is_digit c \<and> (if d = CHR ''_'' then digits_ok cs else digits_ok (d # cs)))"

definition digits_value :: "string \<Rightarrow> int" where
  "digits_value s = fold (\<lambda>c n. 10 * n + digit_val c) (filter is_digit s) 0"

definition py_int :: "string \<Rightarrow> py_error + int" where
  "py_int s =
     (let t = py_strip s;
          neg = (t \<noteq> [] \<and> hd t = CHR ''-'');
          u = (if t \<noteq> [] \<and> (hd t = CHR ''-'' \<or> hd t = CHR ''+'') then tl t else t)
      in if digits_ok u then Inr (if neg then - digits_value u else digits_value u)
         else Inl ValueError)"

text \<open>\<open>str(n)\<close> of an integer.\<close>

function str_nat :: "nat \<Rightarrow> string" where
  "str_nat n = (if n < 10 then [digit_char n] else str_nat (n div 10) @ [digit_char (n mod 10)])"
  by pat_completeness auto
termination
  by (relation "measure id") auto

declare str_nat.simps [simp del]

definition str_int :: "int \<Rightarrow> string" where
  "str_int i = (if i < 0 then CHR ''-'' # str_nat (nat (- i)) else str_nat (nat i))"

definition two_digits :: "nat \<Rightarrow> string" where
  "two_digits n = (if n < 10 then CHR ''0'' # str_nat n else str_nat n)"

text \<open>\<open>str(v)\<close> of a cell value.\<close>

fun py_str :: "pyval \<Rightarrow> string" where
  "py_str PNone = ''None''"
| "py_str (PBool b) = (if b then ''True'' else ''False'')"
| "py_str (PInt n) = str_int n"
| "py_str (PStr s) = s"
| "py_str (PTime h m s) = two_digits h @ '':'' @ two_digits m @ '':'' @ two_digits s"
| "py_str (PTimestamp t) = str_int t"

definition rjust :: "nat \<Rightarrow> char \<Rightarrow> string \<Rightarrow> string" where
  "rjust w c s = replicate (w - length s) c @ s"

text \<open>
  Subscription \<open>xs[i]\<close>: an index below zero is taken from the end of the list, and an
  index outside the list raises.
\<close>

definition py_index :: "'a list \<Rightarrow> int \<Rightarrow> py_error + 'a" where
  "py_index xs i =
     (if 0 \<le> i \<and> i < int (length xs) then Inr (xs ! nat i)
      else if i < 0 \<and> - i \<le> int (length xs) then Inr (xs ! nat (int (length xs) + i))
      else Inl IndexError)"

section \<open>WebScraper: the period filters\<close>

text \<open>
  \<open>WebScraper.__init__\<close> starts from \<open>{'AM': True, 'PM': True, 'MD': True}\<close>, calls
  \<open>_set_filters\<close> when \<open>period_filters\<close> is truthy, and then \<open>_apply_filters\<close>.
  \<open>period_filters\<close> is \<open>None\<close> or a collection of labels.
\<close>

record WebScraper =
  filter_options :: "string \<rightharpoonup> bool"
  collect_am :: pyval
  collect_pm :: pyval
  collect_md :: pyval

definition set_filters :: "(string \<rightharpoonup> bool) \<Rightarrow> string list \<Rightarrow> (string \<rightharpoonup> bool)" where
  "set_filters options period_filters =
     fold (\<lambda>filter_key fo. if fo filter_key \<noteq> None then fo(filter_key \<mapsto> True) else fo)
       period_filters options"

definition options_get :: "(string \<rightharpoonup> bool) \<Rightarrow> string \<Rightarrow> pyval" where
  "options_get fo k = (case fo k of None \<Rightarrow> PNone | Some b \<Rightarrow> PBool b)"

definition apply_filters :: "(string \<rightharpoonup> bool) \<Rightarrow> WebScraper" where
  "apply_filters fo =
     \<lparr>filter_options = fo,
      collect_am = options_get fo ''AM'',
      collect_pm = options_get fo ''PM'',
      collect_md = options_get fo ''MD''\<rparr>"

definition WebScraper_init :: "string list option \<Rightarrow> WebScraper" where
  "WebScraper_init period_filters =
     (let fo = [''AM'' \<mapsto> True, ''PM'' \<mapsto> True, ''MD'' \<mapsto> True]
      in apply_filters
           (case period_filters of
              None \<Rightarrow> fo
            | Some pf \<Rightarrow> if pf \<noteq> [] then set_filters fo pf else fo))"

section \<open>Period detection shared by the adapters\<close>

text \<open>
  \<open>control_dict\<close> maps each label to its \<open>check\<close> and \<open>table_key\<close>; it is iterated in
  insertion order (AM, MD, PM). The three availability flags are local variables.
\<close>

record control_entry =
  check :: pyval
  table_key :: "int option"

type_synonym control = "(string \<times> control_entry) list"

record detection =
  control_dict :: control
  available_am :: bool
  available_md :: bool
  available_pm :: bool

definition detection_init :: detection where
  "detection_init =
     \<lparr>control_dict = [(''AM'', \<lparr>check = PNone, table_key = None\<rparr>),
                      (''MD'', \<lparr>check = PNone, table_key = None\<rparr>),
                      (''PM'', \<lparr>check = PNone, table_key = None\<rparr>)],
      available_am = False, available_md = False, available_pm = False\<rparr>"

definition set_table_key :: "string \<Rightarrow> int \<Rightarrow> control \<Rightarrow> control" where
  "set_table_key tag i cd =
     map (\<lambda>(k, e). if k = tag then (k, e\<lparr>table_key := Some i\<rparr>) else (k, e)) cd"

definition set_check :: "string \<Rightarrow> pyval \<Rightarrow> control \<Rightarrow> control" where
  "set_check tag v cd =
     map (\<lambda>(k, e). if k = tag then (k, e\<lparr>check := v\<rparr>) else (k, e)) cd"

definition get_table_key :: "control \<Rightarrow> string \<Rightarrow> int option" where
  "get_table_key cd tag = (case map_of cd tag of None \<Rightarrow> None | Some e \<Rightarrow> table_key e)"

definition get_check :: "control \<Rightarrow> string \<Rightarrow> pyval" where
  "get_check cd tag = (case map_of cd tag of None \<Rightarrow> PNone | Some e \<Rightarrow> check e)"

text \<open>
  The \<open>if\<close>/\<open>elif\<close> chain on the start hour, written out in the loop of
  \<open>OldTMCScraper._scrape_tmc\<close> and again in the loop of \<open>RecentTMCScraper._read_pdf\<close>;
  \<open>i\<close> is the loop index that becomes the label's \<open>table_key\<close>.
\<close>

definition assign_period :: "int \<Rightarrow> int \<Rightarrow> detection \<Rightarrow> detection" where
  "assign_period i peak_start_hr d =
     (if 6 \<le> peak_start_hr \<and> peak_start_hr \<le> 8 then
        d\<lparr>control_dict := set_table_key ''AM'' i (control_dict d), available_am := True\<rparr>
      else if 9 \<le> peak_start_hr \<and> peak_start_hr \<le> 15 then
        d\<lparr>control_dict := set_table_key ''MD'' i (control_dict d), available_md := True\<rparr>
      else if 16 \<le> peak_start_hr \<and> peak_start_hr \<le> 19 then
        d\<lparr>control_dict := set_table_key ''PM'' i (control_dict d), available_pm := True\<rparr>
      else d)"

text \<open>The label read off the same chain.\<close>

datatype period_label = AM | MD | PM | UNCLASSIFIED

definition classify :: "int \<Rightarrow> period_label" where
  "classify peak_start_hr =
     (if 6 \<le> peak_start_hr \<and> peak_start_hr \<le> 8 then AM
      else if 9 \<le> peak_start_hr \<and> peak_start_hr \<le> 15 then MD
      else if 16 \<le> peak_start_hr \<and> peak_start_hr \<le> 19 then PM
      else UNCLASSIFIED)"

fun label_tag :: "period_label \<Rightarrow> string" where
  "label_tag AM = ''AM''"
| "label_tag MD = ''MD''"
| "label_tag PM = ''PM''"
| "label_tag UNCLASSIFIED = []"

fun available :: "detection \<Rightarrow> period_label \<Rightarrow> bool" where
  "available d AM = available_am d"
| "available d MD = available_md d"
| "available d PM = available_pm d"
| "available d UNCLASSIFIED = False"

text \<open>
  After the detection loop: the three \<open>check\<close> entries, then the flags written into the
  record, then the loop over \<open>control_dict.items()\<close> that adds one block of fields for
  every label whose \<open>check\<close> is truthy. \<open>block\<close> is the adapter's dictionary literal.
\<close>

definition set_checks :: "WebScraper \<Rightarrow> detection \<Rightarrow> control" where
  "set_checks self d =
     set_check ''PM'' (py_and (collect_pm self) (PBool (available_pm d)))
       (set_check ''MD'' (py_and (collect_md self) (PBool (available_md d)))
          (set_check ''AM'' (py_and (collect_am self) (PBool (available_am d)))
             (control_dict d)))"

definition flag_fields :: "WebScraper \<Rightarrow> detection \<Rightarrow> (string \<times> (py_error + pyval)) list" where
  "flag_fields self d =
     [(''AM_available'', Inr (PBool (available_am d))),
      (''AM_scraped'', Inr (collect_am self)),
      (''MD_available'', Inr (PBool (available_md d))),
      (''MD_scraped'', Inr (collect_md self)),
      (''PM_available'', Inr (PBool (available_pm d))),
      (''PM_scraped'', Inr (collect_pm self))]"

fun collect_periods ::
  "(string \<Rightarrow> int option \<Rightarrow> py_error + (string \<times> pyval) list) \<Rightarrow> control
     \<Rightarrow> (string \<rightharpoonup> pyval) \<Rightarrow> py_error + (string \<rightharpoonup> pyval)" where
  "collect_periods block [] tmc = Inr tmc"
| "collect_periods block ((key, val) # rest) tmc =
     (if truthy (check val) then
        (case block key (table_key val) of
           Inl e \<Rightarrow> Inl e
         | Inr kvs \<Rightarrow> collect_periods block rest (dict_update tmc kvs))
      else collect_periods block rest tmc)"

section \<open>RecentTMCScraper: vehicle volumes of a PDF segment\<close>

text \<open>
  \<open>_get_veh_vol\<close> runs three regular-expression searches on the segment and turns the
  captured group of each into a list of integers (\<open>results\<close>, always three lists; an
  unmatched pattern gives the empty list). What follows the searches is
  \<open>veh_vol_elements\<close>; \<open>max\<close> of a non-empty list is \<open>Max (set xs)\<close>.
\<close>

definition veh_vol_elements :: "int list list \<Rightarrow> (string \<rightharpoonup> pyval)" where
  "veh_vol_elements results =
     (let r = results ! 1;
          elements =
            (if r \<noteq> [] then
               (if length r > 4 then
                  [''east'' \<mapsto> PInt (last r), ''west'' \<mapsto> PInt (r ! 0)]
                else if length r = 4 then
                  (if r ! 0 = r ! 1 \<and> r ! 2 = r ! 3 then
                     [''east'' \<mapsto> PInt (last r), ''west'' \<mapsto> PInt (r ! 0)]
                   else
                     (let decision = Max (set r)
                      in [''east'' \<mapsto> (if decision = last r then PInt decision else PNone),
                          ''west'' \<mapsto> (if decision = r ! 0 then PInt decision else PNone)]))
                else if length r = 3 then
                  (let decision = Max (set r)
                   in [''east'' \<mapsto> (if decision = last r then PInt decision else PNone),
                       ''west'' \<mapsto> (if decision = r ! 0 then PInt decision else PNone)])
                else if length r = 2 then
                  [''east'' \<mapsto> PStr ''manual_check'', ''west'' \<mapsto> PStr ''manual_check'']
                else Map.empty)
             else Map.empty)
      in elements(''north'' \<mapsto> (if results ! 0 \<noteq> [] then PInt (results ! 0 ! 0) else PNone),
                  ''south'' \<mapsto> (if results ! 2 \<noteq> [] then PInt (Max (set (results ! 2))) else PNone)))"

section \<open>Detection loop of the markup and PDF adapters\<close>

text \<open>
  Both loops visit their candidate windows in order; \<open>period\<close> is the window text of
  candidate \<open>i\<close> (\<open>None\<close> when the markup adapter finds no element). A falsy \<open>period\<close> is
  skipped, \<open>int(period[:2])\<close> may raise, and the start hour goes through the chain of
  \<open>assign_period\<close>.
\<close>

fun detect_loop :: "(int \<times> string option) list \<Rightarrow> detection \<Rightarrow> py_error + detection" where
  "detect_loop [] d = Inr d"
| "detect_loop ((i, period) # rest) d =
     (case period of
        None \<Rightarrow> detect_loop rest d
      | Some p \<Rightarrow>
          if p \<noteq> [] then
            (case py_int (take 2 p) of
               Inl e \<Rightarrow> Inl e
             | Inr peak_start_hr \<Rightarrow> detect_loop rest (assign_period i peak_start_hr d))
          else detect_loop rest d)"

text \<open>
  \<open>pd.to_datetime\<close> is a parameter \<open>to_datetime\<close>: the instant in nanoseconds that pandas
  parses from a string, \<open>None\<close> where it raises. \<open>pd.to_datetime(None)\<close> is \<open>None\<close>.
\<close>

definition py_to_datetime :: "(string \<Rightarrow> int option) \<Rightarrow> string option \<Rightarrow> py_error + pyval" where
  "py_to_datetime to_datetime x =
     (case x of
        None \<Rightarrow> Inr PNone
      | Some s \<Rightarrow> (case to_datetime s of None \<Rightarrow> Inl ParserError | Some t \<Rightarrow> Inr (PTimestamp t)))"

fun map_err :: "('a \<Rightarrow> py_error + 'b) \<Rightarrow> 'a list \<Rightarrow> py_error + 'b list" where
  "map_err f [] = Inr []"
| "map_err f (x # xs) =
     (case f x of Inl e \<Rightarrow> Inl e
      | Inr y \<Rightarrow> (case map_err f xs of Inl e \<Rightarrow> Inl e | Inr ys \<Rightarrow> Inr (y # ys)))"

section \<open>RecentTMCScraper: the PDF adapter\<close>

text \<open>
  The page text is read only through regular expressions, so a page is given by what
  each expression of the source returns on it:
  \<^item> \<open>peak_hours\<close>: \<open>re.findall(r"Maximum Hour\s*\n*\s*(\d{2}:\d{2} - \d{2}:\d{2})", text)\<close>;
  \<^item> \<open>split_sections\<close>: \<open>re.split(r"Maximum Hour", text)[1:]\<close>, and for each section
    \<open>keyword_numbers\<close>: \<open>re.findall(r"(Bikes|Peds|PEDs)\s*(\d+)", section)\<close> and
    \<open>pattern0\<close>, \<open>pattern1\<close>, \<open>pattern2\<close>: \<open>group(1)\<close> of \<open>re.search\<close> for the three entries
    of \<open>patterns\<close> (\<open>None\<close> when the search fails);
  \<^item> \<open>dates\<close>, \<open>weathers\<close>, \<open>types\<close>: the \<open>findall\<close> results of \<open>_get_date\<close>,
    \<open>_get_weather\<close> and \<open>_get_type\<close>.
\<close>

record pdf_section =
  keyword_numbers :: "(string \<times> string) list"
  pattern0 :: "string option"
  pattern1 :: "string option"
  pattern2 :: "string option"

record pdf_text =
  peak_hours :: "string list"
  split_sections :: "pdf_section list"
  dates :: "string list"
  weathers :: "string list"
  types :: "string list"

definition pdf_get_date :: "(string \<Rightarrow> int option) \<Rightarrow> pdf_text \<Rightarrow> py_error + pyval" where
  "pdf_get_date to_datetime text =
     (let elements = dates text
      in py_to_datetime to_datetime (if elements \<noteq> [] then Some (elements ! 0) else None))"

definition pdf_get_weather :: "pdf_text \<Rightarrow> pyval" where
  "pdf_get_weather text =
     (let elements = weathers text
      in if elements \<noteq> [] then PStr (py_lower (py_strip (elements ! 0))) else PNone)"

definition pdf_get_type :: "pdf_text \<Rightarrow> pyval" where
  "pdf_get_type text =
     (let element = types text in if element \<noteq> [] then PStr (element ! 0) else PNone)"

definition pdf_get_peak_hour :: "pdf_text \<Rightarrow> int \<Rightarrow> py_error + pyval" where
  "pdf_get_peak_hour text key =
     (let elements = peak_hours text
      in if elements \<noteq> [] then bind_err (py_index elements key) (\<lambda>p. Inr (PStr p))
         else Inr PNone)"

definition get_peds_and_bikes_vol :: "pdf_text \<Rightarrow> int \<Rightarrow> py_error + string list option" where
  "get_peds_and_bikes_vol text key =
     (let sections = split_sections text;
          elements = map (\<lambda>section. take 8 (map snd (keyword_numbers section))) sections
      in if elements \<noteq> [] then bind_err (py_index elements key) (\<lambda>numbers. Inr (Some numbers))
         else Inr None)"

definition search_numbers :: "string option \<Rightarrow> py_error + int list" where
  "search_numbers m =
     (case m of None \<Rightarrow> Inr [] | Some group1 \<Rightarrow> map_err py_int (py_split (py_strip group1)))"

definition get_veh_vol :: "pdf_text \<Rightarrow> int \<Rightarrow> py_error + (string \<rightharpoonup> pyval)" where
  "get_veh_vol text key =
     bind_err (py_index (split_sections text) key) (\<lambda>section.
     bind_err (map_err search_numbers [pattern0 section, pattern1 section, pattern2 section])
       (\<lambda>results. Inr (veh_vol_elements results)))"

text \<open>\<open>peds_and_bikes_vol[n] if len(peds_and_bikes_vol) > n else None\<close>\<close>

definition item_or_none :: "string list option \<Rightarrow> nat \<Rightarrow> py_error + pyval" where
  "item_or_none peds_and_bikes_vol n =
     (case peds_and_bikes_vol of
        None \<Rightarrow> Inl TypeError
      | Some xs \<Rightarrow> Inr (if length xs > n then PStr (xs ! n) else PNone))"

definition pdf_block :: "pdf_text \<Rightarrow> string \<Rightarrow> int option \<Rightarrow> py_error + (string \<times> pyval) list" where
  "pdf_block text tag position =
     (case position of
        None \<Rightarrow> Inl TypeError
      | Some key \<Rightarrow>
          bind_err (get_peds_and_bikes_vol text key) (\<lambda>peds_and_bikes_vol.
          bind_err (get_veh_vol text key) (\<lambda>veh_vol.
            dict_literal
              [(tag @ ''_peak_hour'', pdf_get_peak_hour text key),
               (tag @ ''_north_bikes_vol'', item_or_none peds_and_bikes_vol 0),
               (tag @ ''_north_peds_vol'', item_or_none peds_and_bikes_vol 1),
               (tag @ ''_north_veh_vol'', Inr (dict_get veh_vol ''north'')),
               (tag @ ''_east_bikes_vol'', item_or_none peds_and_bikes_vol 5),
               (tag @ ''_east_peds_vol'', item_or_none peds_and_bikes_vol 4),
               (tag @ ''_east_veh_vol'', Inr (dict_get veh_vol ''east'')),
               (tag @ ''_south_bikes_vol'', item_or_none peds_and_bikes_vol 7),
               (tag @ ''_south_peds_vol'', item_or_none peds_and_bikes_vol 6),
               (tag @ ''_south_veh_vol'', Inr (dict_get veh_vol ''south'')),
               (tag @ ''_west_bikes_vol'', item_or_none peds_and_bikes_vol 2),
               (tag @ ''_west_peds_vol'', item_or_none peds_and_bikes_vol 3),
               (tag @ ''_west_veh_vol'', Inr (dict_get veh_vol ''west''))])))"

definition pdf_candidates :: "pdf_text \<Rightarrow> (int \<times> string option) list" where
  "pdf_candidates text =
     (let periods = peak_hours text
      in map (\<lambda>i. (int i, Some (periods ! i))) [0..<length periods])"

definition read_pdf_body ::
  "WebScraper \<Rightarrow> (string \<Rightarrow> int option) \<Rightarrow> pdf_text \<Rightarrow> py_error + (string \<rightharpoonup> pyval)" where
  "read_pdf_body self to_datetime text =
     bind_err (detect_loop (pdf_candidates text) detection_init) (\<lambda>d.
     bind_err (dict_literal
                 ([(''date'', pdf_get_date to_datetime text),
                   (''weather'', Inr (pdf_get_weather text)),
                   (''type'', Inr (pdf_get_type text))] @ flag_fields self d)) (\<lambda>kvs.
       collect_periods (pdf_block text) (set_checks self d) (dict_update Map.empty kvs)))"

text \<open>
  \<open>fetch\<close> stands for the request, \<open>raise_for_status\<close> and the opening of the payload;
  whatever is raised inside the \<open>try\<close> block makes the method return \<open>None\<close>.
\<close>

definition read_pdf ::
  "WebScraper \<Rightarrow> (string \<Rightarrow> int option) \<Rightarrow> (string \<Rightarrow> py_error + pdf_text) \<Rightarrow> string
     \<Rightarrow> (string \<rightharpoonup> pyval) option" where
  "read_pdf self to_datetime fetch url =
     (case bind_err (fetch url) (read_pdf_body self to_datetime) of
        Inl e \<Rightarrow> None
      | Inr tmc \<Rightarrow> Some tmc)"

section \<open>OldTMCScraper: the markup adapter\<close>

text \<open>
  The parsed page is read only through \<open>soup.select\<close> and \<open>soup.select_one\<close>, so a page
  is the function from a selector to the elements it selects, in document order. Of an
  element the source uses \<open>.text\<close> and \<open>str(e)\<close> (its markup).
\<close>

record element =
  elem_text :: string
  elem_str :: string

type_synonym soup = "string \<Rightarrow> element list"

definition select_one :: "soup \<Rightarrow> string \<Rightarrow> element option" where
  "select_one soup sel = (case soup sel of [] \<Rightarrow> None | e # rest \<Rightarrow> Some e)"

text \<open>\<open>re.findall(r'\d+', s)[i]\<close>\<close>

definition digits_at :: "string \<Rightarrow> int \<Rightarrow> py_error + pyval" where
  "digits_at s i = bind_err (py_index (findall_digits s) i) (\<lambda>n. Inr (PStr n))"

definition old_get_date :: "(string \<Rightarrow> int option) \<Rightarrow> soup \<Rightarrow> py_error + pyval" where
  "old_get_date to_datetime soup =
     (let element = select_one soup ''th[valign='TOP']:nth-of-type(3) p''
      in py_to_datetime to_datetime (map_option elem_text element))"

definition old_get_weather :: "soup \<Rightarrow> py_error + pyval" where
  "old_get_weather soup =
     (let elements = soup ''th:nth-of-type(13) p''
      in if elements \<noteq> [] then
           bind_err (py_index (py_split (elem_text (elements ! 0))) (- 1))
             (\<lambda>w. Inr (PStr (py_lower w)))
         else Inr PNone)"

definition old_get_type :: "soup \<Rightarrow> pyval" where
  "old_get_type soup =
     (let element = select_one soup ''th:nth-of-type(8) p''
      in opt_val (map_option elem_text element))"

definition old_get_peak_hour :: "soup \<Rightarrow> int \<Rightarrow> string option" where
  "old_get_peak_hour soup key =
     (let element = select_one soup
            (''table:nth-of-type('' @ str_int key @ '') [valign='MIDDLE'] p.p8'')
      in map_option (\<lambda>e. py_replace ''Maximum Hour '' [] (elem_text e)) element)"

definition get_north_bikes_vol :: "soup \<Rightarrow> int \<Rightarrow> py_error + pyval" where
  "get_north_bikes_vol soup key =
     (let elements = soup
            (''table:nth-of-type('' @ str_int key
               @ '') [valign='BOTTOM'] tr:-soup-contains('Bikes') tr:nth-of-type(1)'')
      in if elements \<noteq> [] then digits_at (elem_text (elements ! 0)) 0 else Inr PNone)"

definition get_north_peds_vol :: "soup \<Rightarrow> int \<Rightarrow> py_error + pyval" where
  "get_north_peds_vol soup key =
     (let elements = soup
            (''table:nth-of-type('' @ str_int key
               @ '') table:nth-of-type(1) th:-soup-contains('PEDs')'')
      in if elements \<noteq> [] then digits_at (elem_text (elements ! 0)) (- 1) else Inr PNone)"

definition get_north_veh_vol :: "soup \<Rightarrow> int \<Rightarrow> py_error + pyval" where
  "get_north_veh_vol soup key =
     (let elements = soup
            (''table:nth-of-type('' @ str_int key @ '') table:nth-of-type(1) th.s'');
          nums = findall_digits (concat (map elem_str elements))
      in Inr (if length nums > 2 then PStr (nums ! 2) else PNone))"

definition get_east_bikes_vol :: "soup \<Rightarrow> int \<Rightarrow> py_error + pyval" where
  "get_east_bikes_vol soup key =
     (let elements = soup ''tr:-soup-contains('Bikes') th.s:-soup-contains('Bikes')''
      in if elements \<noteq> [] \<and> 0 \<le> 2 * key - 3 \<and> 2 * key - 3 < int (length elements)
         then digits_at (elem_text (elements ! nat (2 * key - 3))) 0 else Inr PNone)"

definition get_east_peds_vol :: "soup \<Rightarrow> int \<Rightarrow> py_error + pyval" where
  "get_east_peds_vol soup key =
     (let elements = soup ''tr:-soup-contains('Peds') th.s:-soup-contains('Peds')''
      in if elements \<noteq> [] \<and> 0 \<le> 2 * key - 3 \<and> 2 * key - 3 < int (length elements)
         then digits_at (elem_text (elements ! nat (2 * key - 3))) 0 else Inr PNone)"

definition get_east_veh_vol :: "soup \<Rightarrow> int \<Rightarrow> py_error + pyval" where
  "get_east_veh_vol soup key =
     (let elements = soup
            ''tr:-soup-contains('Peds') th[align='LEFT'] th:nth-of-type(2) th.s:not(:-soup-contains('Peds')):not(:-soup-contains('Bikes'))''
      in if elements \<noteq> [] then
           bind_err (py_index elements (key - 2)) (\<lambda>e. digits_at (elem_text e) 0)
         else Inr PNone)"

definition get_south_bikes_vol :: "soup \<Rightarrow> int \<Rightarrow> py_error + pyval" where
  "get_south_bikes_vol soup key =
     (let elements = soup ''tr:nth-of-type(5):-soup-contains('Bikes')''
      in if elements \<noteq> [] \<and> 0 \<le> key - 2 \<and> key - 2 < int (length elements)
         then digits_at (elem_text (elements ! nat (key - 2))) 0 else Inr PNone)"

definition get_south_peds_vol :: "soup \<Rightarrow> int \<Rightarrow> py_error + pyval" where
  "get_south_peds_vol soup key =
     (let elements = soup ''tr:nth-of-type(4) th.s:-soup-contains('PEDs')''
      in if elements \<noteq> [] \<and> 0 \<le> key - 2 \<and> key - 2 < int (length elements)
         then digits_at (elem_text (elements ! nat (key - 2))) 0 else Inr PNone)"

definition get_south_veh_vol :: "soup \<Rightarrow> int \<Rightarrow> py_error + pyval" where
  "get_south_veh_vol soup key =
     (let elements = soup
            (''tr:nth-of-type('' @ str_int (5 * key - 6) @ '') th.s:not(:-soup-contains('PEDs'))'')
      in if elements \<noteq> [] then digits_at (elem_text (last elements)) 0 else Inr PNone)"

definition get_west_bikes_vol :: "soup \<Rightarrow> int \<Rightarrow> py_error + pyval" where
  "get_west_bikes_vol soup key =
     (let elements = soup ''tr:-soup-contains('Bikes') th.s:-soup-contains('Bikes')''
      in if elements \<noteq> [] \<and> 0 \<le> 2 * key - 4 \<and> 2 * key - 4 < int (length elements)
         then digits_at (elem_text (elements ! nat (2 * key - 4))) 0 else Inr PNone)"

definition get_west_peds_vol :: "soup \<Rightarrow> int \<Rightarrow> py_error + pyval" where
  "get_west_peds_vol soup key =
     (let elements = soup ''tr:-soup-contains('Peds') th.s:-soup-contains('Peds')''
      in if elements \<noteq> [] \<and> 0 \<le> 2 * key - 4 \<and> 2 * key - 4 < int (length elements)
         then digits_at (elem_text (elements ! nat (2 * key - 4))) 0 else Inr PNone)"

definition get_west_veh_vol :: "soup \<Rightarrow> int \<Rightarrow> py_error + pyval" where
  "get_west_veh_vol soup key =
     (let elements = soup
            ''tr:-soup-contains('Peds') th[align='RIGHT'] th:nth-of-type(3) th.s:not(:-soup-contains('Peds')):not(:-soup-contains('Bikes'))''
      in if elements \<noteq> [] then
           bind_err (py_index elements (key - 2)) (\<lambda>e. digits_at (elem_text e) 0)
         else Inr PNone)"

text \<open>
  The block of one label. A \<open>position\<close> of \<open>None\<close> would give the selector
  \<open>table:nth-of-type(None)\<close>, which the selector parser rejects.
\<close>

definition old_block :: "soup \<Rightarrow> string \<Rightarrow> int option \<Rightarrow> py_error + (string \<times> pyval) list" where
  "old_block soup tag position =
     (case position of
        None \<Rightarrow> Inl SelectorSyntaxError
      | Some key \<Rightarrow>
          dict_literal
            [(tag @ ''_peak_hour'', Inr (opt_val (old_get_peak_hour soup key))),
             (tag @ ''_north_bikes_vol'', get_north_bikes_vol soup key),
             (tag @ ''_north_peds_vol'', get_north_peds_vol soup key),
             (tag @ ''_north_veh_vol'', get_north_veh_vol soup key),
             (tag @ ''_east_bikes_vol'', get_east_bikes_vol soup key),
             (tag @ ''_east_peds_vol'', get_east_peds_vol soup key),
             (tag @ ''_east_veh_vol'', get_east_veh_vol soup key),
             (tag @ ''_south_bikes_vol'', get_south_bikes_vol soup key),
             (tag @ ''_south_peds_vol'', get_south_peds_vol soup key),
             (tag @ ''_south_veh_vol'', get_south_veh_vol soup key),
             (tag @ ''_west_bikes_vol'', get_west_bikes_vol soup key),
             (tag @ ''_west_peds_vol'', get_west_peds_vol soup key),
             (tag @ ''_west_veh_vol'', get_west_veh_vol soup key)])"

definition old_candidates :: "soup \<Rightarrow> (int \<times> string option) list" where
  "old_candidates soup = map (\<lambda>i. (i, old_get_peak_hour soup i)) [2, 3, 4]"

definition old_scrape_tmc_body ::
  "WebScraper \<Rightarrow> (string \<Rightarrow> int option) \<Rightarrow> soup \<Rightarrow> py_error + (string \<rightharpoonup> pyval)" where
  "old_scrape_tmc_body self to_datetime soup =
     bind_err (detect_loop (old_candidates soup) detection_init) (\<lambda>d.
     bind_err (dict_literal
                 ([(''date'', old_get_date to_datetime soup),
                   (''weather'', old_get_weather soup),
                   (''type'', Inr (old_get_type soup))] @ flag_fields self d)) (\<lambda>kvs.
       collect_periods (old_block soup) (set_checks self d) (dict_update Map.empty kvs)))"

text \<open>\<open>row\<close> is the sub-URL of the table row, \<open>None\<close> when it is missing (\<open>pd.isna\<close>).\<close>

definition old_scrape_tmc ::
  "WebScraper \<Rightarrow> (string \<Rightarrow> int option) \<Rightarrow> (string \<Rightarrow> py_error + soup) \<Rightarrow> string option
     \<Rightarrow> (string \<rightharpoonup> pyval) option" where
  "old_scrape_tmc self to_datetime fetch row =
     (case row of
        None \<Rightarrow> None
      | Some url \<Rightarrow>
          (case bind_err (fetch url) (old_scrape_tmc_body self to_datetime) of
             Inl e \<Rightarrow> None
           | Inr tmc \<Rightarrow> Some tmc))"

section \<open>RecentTMCScraper: the spreadsheet adapter\<close>

text \<open>
  A worksheet gives the value of the cell at an address such as \<open>N47\<close>; a workbook
  gives its worksheets by name.
\<close>

type_synonym worksheet = "string \<Rightarrow> pyval"

definition cell_or_none :: "pyval \<Rightarrow> pyval" where
  "cell_or_none element = (if truthy element then element else PNone)"

definition xlsx_get_date :: "worksheet \<Rightarrow> pyval" where
  "xlsx_get_date ws = cell_or_none (ws ''N15'')"

definition xlsx_get_weather :: "worksheet \<Rightarrow> py_error + pyval" where
  "xlsx_get_weather ws =
     (let element = ws ''V8''
      in if truthy element then
           (case element of PStr s \<Rightarrow> Inr (PStr (py_lower s)) | _ \<Rightarrow> Inl AttributeError)
         else Inr PNone)"

definition xlsx_get_type :: "worksheet \<Rightarrow> pyval" where
  "xlsx_get_type ws = PNone"

definition xlsx_get_peak_hour :: "worksheet \<Rightarrow> int \<Rightarrow> string option" where
  "xlsx_get_peak_hour ws key =
     (let element_1 = ws (''N'' @ str_int (key + 15));
          element_2 = ws (''P'' @ str_int (key + 15));
          s1 = py_str element_1;
          s2 = py_str element_2
      in if truthy element_1 \<and> truthy element_2 then
           Some (rjust 5 (CHR ''0'') (take (length s1 - 3) s1) @ '' - ''
                 @ rjust 5 (CHR ''0'') (take (length s2 - 3) s2))
         else None)"

definition xlsx_get_north_bikes_vol :: "worksheet \<Rightarrow> int \<Rightarrow> pyval" where
  "xlsx_get_north_bikes_vol ws key = cell_or_none (ws (''M'' @ str_int (key + 1)))"

definition xlsx_get_north_peds_vol :: "worksheet \<Rightarrow> int \<Rightarrow> pyval" where
  "xlsx_get_north_peds_vol ws key = cell_or_none (ws (''L'' @ str_int (key + 2)))"

definition xlsx_get_north_veh_vol :: "worksheet \<Rightarrow> int \<Rightarrow> pyval" where
  "xlsx_get_north_veh_vol ws key = cell_or_none (ws (''M'' @ str_int key))"

definition xlsx_get_east_bikes_vol :: "worksheet \<Rightarrow> int \<Rightarrow> pyval" where
  "xlsx_get_east_bikes_vol ws key = cell_or_none (ws (''AA'' @ str_int (key + 12)))"

definition xlsx_get_east_peds_vol :: "worksheet \<Rightarrow> int \<Rightarrow> pyval" where
  "xlsx_get_east_peds_vol ws key = cell_or_none (ws (''Z'' @ str_int (key + 11)))"

definition xlsx_get_east_veh_vol :: "worksheet \<Rightarrow> int \<Rightarrow> pyval" where
  "xlsx_get_east_veh_vol ws key = cell_or_none (ws (''AB'' @ str_int (key + 12)))"

definition xlsx_get_south_bikes_vol :: "worksheet \<Rightarrow> int \<Rightarrow> pyval" where
  "xlsx_get_south_bikes_vol ws key = cell_or_none (ws (''P'' @ str_int (key + 26)))"

definition xlsx_get_south_peds_vol :: "worksheet \<Rightarrow> int \<Rightarrow> pyval" where
  "xlsx_get_south_peds_vol ws key = cell_or_none (ws (''Q'' @ str_int (key + 25)))"

definition xlsx_get_south_veh_vol :: "worksheet \<Rightarrow> int \<Rightarrow> pyval" where
  "xlsx_get_south_veh_vol ws key = cell_or_none (ws (''P'' @ str_int (key + 27)))"

definition xlsx_get_west_bikes_vol :: "worksheet \<Rightarrow> int \<Rightarrow> pyval" where
  "xlsx_get_west_bikes_vol ws key = cell_or_none (ws (''B'' @ str_int (key + 15)))"

definition xlsx_get_west_peds_vol :: "worksheet \<Rightarrow> int \<Rightarrow> pyval" where
  "xlsx_get_west_peds_vol ws key = cell_or_none (ws (''C'' @ str_int (key + 16)))"

definition xlsx_get_west_veh_vol :: "worksheet \<Rightarrow> int \<Rightarrow> pyval" where
  "xlsx_get_west_veh_vol ws key = cell_or_none (ws (''A'' @ str_int (key + 15)))"

text \<open>
  The chain of the spreadsheet loop: the label is fixed by the anchor \<open>i\<close> and confirmed
  by \<open>period_check\<close>.
\<close>

definition xlsx_assign :: "int \<Rightarrow> bool \<Rightarrow> detection \<Rightarrow> detection" where
  "xlsx_assign i period_check d =
     (if i = 32 \<and> period_check then
        d\<lparr>control_dict := set_table_key ''AM'' i (control_dict d), available_am := True\<rparr>
      else if i = 62 \<and> period_check then
        d\<lparr>control_dict := set_table_key ''MD'' i (control_dict d), available_md := True\<rparr>
      else if i = 92 \<and> period_check then
        d\<lparr>control_dict := set_table_key ''PM'' i (control_dict d), available_pm := True\<rparr>
      else d)"

text \<open>
  \<open>period_check\<close> compares \<open>total_seconds()\<close> of the difference of the two parsed
  instants with 3600, that is the difference in nanoseconds with \<open>3600 * 10^9\<close>. The
  end of the window is parsed first.
\<close>

definition period_check_of :: "(string \<Rightarrow> int option) \<Rightarrow> string \<Rightarrow> py_error + bool" where
  "period_check_of to_datetime period =
     (let peak_start = take 6 period;
          peak_end = drop (length period - 5) period
      in case to_datetime peak_end of
           None \<Rightarrow> Inl ParserError
         | Some t_end \<Rightarrow>
             (case to_datetime peak_start of
                None \<Rightarrow> Inl ParserError
              | Some t_start \<Rightarrow> Inr (t_end - t_start = 3600 * 1000000000)))"

fun xlsx_detect ::
  "(string \<Rightarrow> int option) \<Rightarrow> worksheet \<Rightarrow> int list \<Rightarrow> detection \<Rightarrow> py_error + detection" where
  "xlsx_detect to_datetime ws [] d = Inr d"
| "xlsx_detect to_datetime ws (i # rest) d =
     (case xlsx_get_peak_hour ws i of
        None \<Rightarrow> xlsx_detect to_datetime ws rest d
      | Some period \<Rightarrow>
          if period \<noteq> [] then
            (case period_check_of to_datetime period of
               Inl e \<Rightarrow> Inl e
             | Inr period_check \<Rightarrow> xlsx_detect to_datetime ws rest (xlsx_assign i period_check d))
          else xlsx_detect to_datetime ws rest d)"

definition xlsx_block :: "worksheet \<Rightarrow> string \<Rightarrow> int option \<Rightarrow> py_error + (string \<times> pyval) list" where
  "xlsx_block ws tag position =
     (case position of
        None \<Rightarrow> Inl TypeError
      | Some key \<Rightarrow>
          dict_literal
            [(tag @ ''_peak_hour'', Inr (opt_val (xlsx_get_peak_hour ws key))),
             (tag @ ''_north_bikes_vol'', Inr (xlsx_get_north_bikes_vol ws key)),
             (tag @ ''_north_peds_vol'', Inr (xlsx_get_north_peds_vol ws key)),
             (tag @ ''_north_veh_vol'', Inr (xlsx_get_north_veh_vol ws key)),
             (tag @ ''_east_bikes_vol'', Inr (xlsx_get_east_bikes_vol ws key)),
             (tag @ ''_east_peds_vol'', Inr (xlsx_get_east_peds_vol ws key)),
             (tag @ ''_east_veh_vol'', Inr (xlsx_get_east_veh_vol ws key)),
             (tag @ ''_south_bikes_vol'', Inr (xlsx_get_south_bikes_vol ws key)),
             (tag @ ''_south_peds_vol'', Inr (xlsx_get_south_peds_vol ws key)),
             (tag @ ''_south_veh_vol'', Inr (xlsx_get_south_veh_vol ws key)),
             (tag @ ''_west_bikes_vol'', Inr (xlsx_get_west_bikes_vol ws key)),
             (tag @ ''_west_peds_vol'', Inr (xlsx_get_west_peds_vol ws key)),
             (tag @ ''_west_veh_vol'', Inr (xlsx_get_west_veh_vol ws key))])"

definition read_xlsx_body ::
  "WebScraper \<Rightarrow> (string \<Rightarrow> int option) \<Rightarrow> (string \<rightharpoonup> worksheet)
     \<Rightarrow> py_error + (string \<rightharpoonup> pyval)" where
  "read_xlsx_body self to_datetime wb =
     (case wb ''Summary'' of
        None \<Rightarrow> Inl KeyError
      | Some ws \<Rightarrow>
          bind_err (xlsx_detect to_datetime ws [32, 62, 92] detection_init) (\<lambda>d.
          bind_err (dict_literal
                      ([(''date'', Inr (xlsx_get_date ws)),
                        (''weather'', xlsx_get_weather ws),
                        (''type'', Inr (xlsx_get_type ws))] @ flag_fields self d)) (\<lambda>kvs.
            collect_periods (xlsx_block ws) (set_checks self d) (dict_update Map.empty kvs))))"

definition read_xlsx ::
  "WebScraper \<Rightarrow> (string \<Rightarrow> int option) \<Rightarrow> (string \<Rightarrow> py_error + (string \<rightharpoonup> worksheet))
     \<Rightarrow> string \<Rightarrow> (string \<rightharpoonup> pyval) option" where
  "read_xlsx self to_datetime fetch url =
     (case bind_err (fetch url) (read_xlsx_body self to_datetime) of
        Inl e \<Rightarrow> None
      | Inr tmc \<Rightarrow> Some tmc)"

section \<open>Notions used to state the properties\<close>

text \<open>The keys of the block of one label, without the label: the peak hour and the twelve volumes.\<close>

definition period_field_names :: "string list" where
  "period_field_names =
     [''_peak_hour'',
      ''_north_bikes_vol'', ''_north_peds_vol'', ''_north_veh_vol'',
      ''_east_bikes_vol'', ''_east_peds_vol'', ''_east_veh_vol'',
      ''_south_bikes_vol'', ''_south_peds_vol'', ''_south_veh_vol'',
      ''_west_bikes_vol'', ''_west_peds_vol'', ''_west_veh_vol'']"

definition period_keys :: "string \<Rightarrow> string set" where
  "period_keys tag = set (map (\<lambda>f. tag @ f) period_field_names)"

text \<open>\<open>control_dict\<close> keeps its three labels in insertion order.\<close>

definition shape :: "detection \<Rightarrow> bool" where
  "shape d = (map fst (control_dict d) = [''AM'', ''MD'', ''PM''])"

text \<open>
  The label a candidate window receives in \<open>detect_loop\<close>, and the candidate index that
  is stored last for a label.
\<close>

definition window_label :: "string option \<Rightarrow> period_label" where
  "window_label period =
     (case period of
        None \<Rightarrow> UNCLASSIFIED
      | Some p \<Rightarrow>
          if p \<noteq> [] then
            (case py_int (take 2 p) of Inl e \<Rightarrow> UNCLASSIFIED | Inr h \<Rightarrow> classify h)
          else UNCLASSIFIED)"

definition last_anchor :: "period_label \<Rightarrow> (int \<times> string option) list \<Rightarrow> int option" where
  "last_anchor L cs =
     (case filter (\<lambda>c. window_label (snd c) = L) cs of
        [] \<Rightarrow> None
      | x # xs \<Rightarrow> Some (fst (last (x # xs))))"

text \<open>
  The window at a spreadsheet anchor exists and its parsed end is exactly one hour after
  its parsed start.
\<close>

definition window_is_one_hour :: "(string \<Rightarrow> int option) \<Rightarrow> worksheet \<Rightarrow> int \<Rightarrow> bool" where
  "window_is_one_hour to_datetime ws i =
     (case xlsx_get_peak_hour ws i of
        None \<Rightarrow> False
      | Some period \<Rightarrow>
          (case to_datetime (take 6 period) of
             None \<Rightarrow> False
           | Some t_start \<Rightarrow>
               (case to_datetime (drop (length period - 5) period) of
                  None \<Rightarrow> False
                | Some t_end \<Rightarrow> t_end - t_start = 3600 * 1000000000)))"

text \<open>
  The number at a position of the list of keyword-tagged numbers, \<open>None\<close> beyond its
  length; the value stored under a key of a block; the exception a computation raised.
\<close>

definition position_value :: "string list \<Rightarrow> nat \<Rightarrow> pyval" where
  "position_value numbers n = (if n < length numbers then PStr (numbers ! n) else PNone)"

definition block_value :: "py_error + (string \<times> pyval) list \<Rightarrow> string \<Rightarrow> pyval option" where
  "block_value r k = (case r of Inl e \<Rightarrow> None | Inr kvs \<Rightarrow> map_of kvs k)"

subsection \<open>Example documents\<close>

text \<open>
  A PDF page with two morning windows, a markup page with two morning windows, a markup
  page whose north bicycle cell holds no digit, a parser for clock strings and a
  worksheet with a one-hour morning window and a ninety-minute midday window.
\<close>

definition example_section :: pdf_section where
  "example_section =
     \<lparr>keyword_numbers =
        [(''PEDs'', ''1''), (''Bikes'', ''2''), (''Peds'', ''3''), (''Bikes'', ''4''),
         (''Peds'', ''5''), (''Bikes'', ''6''), (''PEDs'', ''7''), (''Bikes'', ''8'')],
      pattern0 = Some '' 11 12'', pattern1 = Some '' 10 15 20'', pattern2 = None\<rparr>"

definition two_am_pdf :: pdf_text where
  "two_am_pdf =
     \<lparr>peak_hours = [''07:00 - 08:00'', ''07:30 - 08:30''],
      split_sections = [example_section, example_section],
      dates = [], weathers = [''Rain''], types = []\<rparr>"

definition two_am_soup :: soup where
  "two_am_soup sel =
     (if sel = ''table:nth-of-type(2) [valign='MIDDLE'] p.p8'' then
        [\<lparr>elem_text = ''Maximum Hour 07:00 - 08:00'', elem_str = []\<rparr>]
      else if sel = ''table:nth-of-type(3) [valign='MIDDLE'] p.p8'' then
        [\<lparr>elem_text = ''Maximum Hour 07:30 - 08:30'', elem_str = []\<rparr>]
      else [])"

definition no_digits_soup :: soup where
  "no_digits_soup sel =
     (if sel = ''table:nth-of-type(2) [valign='MIDDLE'] p.p8'' then
        [\<lparr>elem_text = ''Maximum Hour 07:00 - 08:00'', elem_str = []\<rparr>]
      else if sel = ''table:nth-of-type(2) [valign='BOTTOM'] tr:-soup-contains('Bikes') tr:nth-of-type(1)'' then
        [\<lparr>elem_text = ''Bikes'', elem_str = []\<rparr>]
      else [])"

definition clock_parser :: "string \<Rightarrow> int option" where
  "clock_parser s =
     (let t = py_strip s
      in case py_int (take 2 t) of
           Inl e \<Rightarrow> None
         | Inr h \<Rightarrow>
             (case py_int (drop 3 t) of
                Inl e \<Rightarrow> None
              | Inr m \<Rightarrow> Some ((h * 3600 + m * 60) * 1000000000)))"

definition example_sheet :: worksheet where
  "example_sheet a =
     (if a = ''N47'' then PTime 7 0 0 else if a = ''P47'' then PTime 8 0 0
      else if a = ''N77'' then PTime 11 0 0 else if a = ''P77'' then PTime 12 30 0
      else if a = ''M32'' then PInt 120
      else PNone)"

definition raised :: "py_error + 'a \<Rightarrow> py_error option" where
  "raised r = (case r of Inl e \<Rightarrow> Some e | Inr x \<Rightarrow> None)"

section \<open>Properties of the period filters\<close>

lemma set_filters_keeps:
  "fo k = Some True \<Longrightarrow> set_filters fo pf k = Some True"
  unfolding set_filters_def
  by (induction pf arbitrary: fo) auto

lemma init_options:
  "[''AM'' \<mapsto> True, ''PM'' \<mapsto> True, ''MD'' \<mapsto> True] ''AM'' = Some True"
  "[''AM'' \<mapsto> True, ''PM'' \<mapsto> True, ''MD'' \<mapsto> True] ''MD'' = Some True"
  "[''AM'' \<mapsto> True, ''PM'' \<mapsto> True, ''MD'' \<mapsto> True] ''PM'' = Some True"
  by simp_all

text \<open>Whatever \<open>period_filters\<close> is, all three \<open>collect\<close> attributes are \<open>True\<close>.\<close>

lemma collect_always_true:
  "collect_am (WebScraper_init pf) = PBool True \<and>
   collect_md (WebScraper_init pf) = PBool True \<and>
   collect_pm (WebScraper_init pf) = PBool True"
proof (cases pf)
  case None
  then show ?thesis
    by (simp add: WebScraper_init_def apply_filters_def options_get_def Let_def)
next
  case (Some xs)
  show ?thesis
  proof (cases "xs = []")
    case True
    with Some show ?thesis
      by (simp add: WebScraper_init_def apply_filters_def options_get_def Let_def)
  next
    case False
    with Some show ?thesis
      by (simp add: WebScraper_init_def apply_filters_def options_get_def Let_def
            set_filters_keeps init_options del: fun_upd_apply)
  qed
qed

text \<open>
  Claim C2 says that a label outside the requested set is never scraped and that the
  empty request scrapes no period. The constructor gives the opposite: with the request
  \<open>['AM']\<close> the attributes for MD and PM are \<open>True\<close>, and with the empty request the
  attribute for AM is \<open>True\<close>.
\<close>

theorem filter_never_disables:
  "collect_md (WebScraper_init (Some [''AM''])) = PBool True \<and>
   collect_pm (WebScraper_init (Some [''AM''])) = PBool True \<and>
   collect_am (WebScraper_init (Some [])) = PBool True"
  by (simp add: collect_always_true)

section \<open>Properties of the period classifier\<close>

text \<open>
  Claim C6: a window with start hour \<open>h\<close> is AM exactly for \<open>6 \<le> h \<le> 8\<close>, MD exactly for
  \<open>9 \<le> h \<le> 15\<close>, PM exactly for \<open>16 \<le> h \<le> 19\<close> and unclassified otherwise; the loop body
  records the candidate under the label found and leaves the detection state as it is
  for an unclassified window.
\<close>

theorem classify_ranges:
  "(classify h = AM \<longleftrightarrow> 6 \<le> h \<and> h \<le> 8) \<and>
   (classify h = MD \<longleftrightarrow> 9 \<le> h \<and> h \<le> 15) \<and>
   (classify h = PM \<longleftrightarrow> 16 \<le> h \<and> h \<le> 19) \<and>
   (classify h = UNCLASSIFIED \<longleftrightarrow> h < 6 \<or> 19 < h) \<and>
   assign_period i h d =
     (case classify h of
        AM \<Rightarrow> d\<lparr>control_dict := set_table_key ''AM'' i (control_dict d), available_am := True\<rparr>
      | MD \<Rightarrow> d\<lparr>control_dict := set_table_key ''MD'' i (control_dict d), available_md := True\<rparr>
      | PM \<Rightarrow> d\<lparr>control_dict := set_table_key ''PM'' i (control_dict d), available_pm := True\<rparr>
      | UNCLASSIFIED \<Rightarrow> d)"
  by (auto simp: classify_def assign_period_def)

theorem classify_ranges_witness:
  "classify 7 = AM \<and> classify 12 = MD \<and> classify 17 = PM \<and>
   classify 5 = UNCLASSIFIED \<and> classify 20 = UNCLASSIFIED"
  using classify_ranges [of 7] classify_ranges [of 12] classify_ranges [of 17]
        classify_ranges [of 5] classify_ranges [of 20]
  by simp

section \<open>Properties of the vehicle volumes\<close>

text \<open>
  Claim C9: the north volume is the first number of the first run and the south volume
  the maximum of the third run, each \<open>None\<close> for an empty run, whatever the second run
  (the one east and west come from) is.
\<close>

theorem north_south_volumes:
  "dict_get (veh_vol_elements [r0, r1, r2]) ''north'' = (if r0 = [] then PNone else PInt (hd r0)) \<and>
   dict_get (veh_vol_elements [r0, r1, r2]) ''south'' = (if r2 = [] then PNone else PInt (Max (set r2)))"
  by (simp add: veh_vol_elements_def dict_get_def Let_def hd_conv_nth)

text \<open>
  Claim C3: the east and west outcome for a second run \<open>r\<close>, by its length. Longer than
  four: west is the first and east the last element. Four with equal pairs: the same.
  Four without equal pairs, or three: the maximum goes to each end it equals, the other
  end is \<open>None\<close>. Two: both sides are the marker \<open>manual_check\<close>. Shorter: both \<open>None\<close>.
\<close>

theorem east_west_rule_table:
  "let el = veh_vol_elements [r0, r, r2];
       east = dict_get el ''east'';
       west = dict_get el ''west'';
       m = Max (set r)
   in (4 < length r \<longrightarrow> west = PInt (hd r) \<and> east = PInt (last r)) \<and>
      (length r = 4 \<and> r ! 0 = r ! 1 \<and> r ! 2 = r ! 3 \<longrightarrow>
         west = PInt (hd r) \<and> east = PInt (last r)) \<and>
      (length r = 4 \<and> \<not> (r ! 0 = r ! 1 \<and> r ! 2 = r ! 3) \<or> length r = 3 \<longrightarrow>
         east = (if m = last r then PInt m else PNone) \<and>
         west = (if m = hd r then PInt m else PNone)) \<and>
      (length r = 2 \<longrightarrow> east = PStr ''manual_check'' \<and> west = PStr ''manual_check'') \<and>
      (length r < 2 \<longrightarrow> east = PNone \<and> west = PNone)"
proof -
  have len: "r \<noteq> [] \<Longrightarrow> r ! 0 = hd r"
    by (simp add: hd_conv_nth)
  show ?thesis
    unfolding veh_vol_elements_def Let_def
    by (cases "r = []") (auto simp: dict_get_def len)
qed

theorem east_west_rule_table_witness:
  "dict_get (veh_vol_elements [[], [10, 10, 20, 20], []]) ''west'' = PInt 10 \<and>
   dict_get (veh_vol_elements [[], [10, 10, 20, 20], []]) ''east'' = PInt 20 \<and>
   dict_get (veh_vol_elements [[], [10, 15, 20], []]) ''east'' = PInt 20 \<and>
   dict_get (veh_vol_elements [[], [10, 15, 20], []]) ''west'' = PNone \<and>
   dict_get (veh_vol_elements [[], [5, 9], []]) ''east'' = PStr ''manual_check'' \<and>
   dict_get (veh_vol_elements [[], [5, 9], []]) ''west'' = PStr ''manual_check'' \<and>
   dict_get (veh_vol_elements [[], [1, 2, 3, 4, 5], []]) ''west'' = PInt 1 \<and>
   dict_get (veh_vol_elements [[], [1, 2, 3, 4, 5], []]) ''east'' = PInt 5 \<and>
   dict_get (veh_vol_elements [[], [7], []]) ''east'' = PNone \<and>
   dict_get (veh_vol_elements [[], [], []]) ''west'' = PNone"
  using east_west_rule_table [of "[]" "[10, 10, 20, 20]" "[]"]
        east_west_rule_table [of "[]" "[10, 15, 20]" "[]"]
        east_west_rule_table [of "[]" "[5, 9]" "[]"]
        east_west_rule_table [of "[]" "[1, 2, 3, 4, 5]" "[]"]
        east_west_rule_table [of "[]" "[7]" "[]"]
        east_west_rule_table [of "[]" "[]" "[]"]
  by (simp add: Let_def)

text \<open>
  Claim C10: for a second run of length three, or of length four without equal pairs,
  whose maximum is both its first and its last element, east and west both receive the
  maximum.
\<close>

theorem tie_gives_both_sides:
  assumes "length r = 3 \<or> (length r = 4 \<and> \<not> (r ! 0 = r ! 1 \<and> r ! 2 = r ! 3))"
    and "Max (set r) = hd r" and "Max (set r) = last r"
  shows "dict_get (veh_vol_elements [r0, r, r2]) ''east'' = PInt (Max (set r)) \<and>
         dict_get (veh_vol_elements [r0, r, r2]) ''west'' = PInt (Max (set r))"
proof -
  from assms(1) have ne: "r \<noteq> []" by auto
  then have "r ! 0 = hd r" by (simp add: hd_conv_nth)
  with assms ne show ?thesis
    unfolding veh_vol_elements_def Let_def
    by (auto simp: dict_get_def)
qed

theorem tie_gives_both_sides_witness:
  "dict_get (veh_vol_elements [[], [20, 10, 20], []]) ''east'' = PInt 20 \<and>
   dict_get (veh_vol_elements [[], [20, 10, 20], []]) ''west'' = PInt 20 \<and>
   dict_get (veh_vol_elements [[], [20, 10, 5, 20], []]) ''east'' = PInt 20 \<and>
   dict_get (veh_vol_elements [[], [20, 10, 5, 20], []]) ''west'' = PInt 20"
  using tie_gives_both_sides [of "[20, 10, 20]" "[]" "[]"]
        tie_gives_both_sides [of "[20, 10, 5, 20]" "[]" "[]"]
  by simp

section \<open>Properties of the assembled record\<close>

lemma dict_literal_map_fst:
  "dict_literal kms = Inr kvs \<Longrightarrow> map fst kvs = map fst kms"
  by (induction kms arbitrary: kvs) (auto split: sum.splits)

lemma dict_literal_keys:
  "dict_literal kms = Inr kvs \<Longrightarrow> fst ` set kvs = fst ` set kms"
  using dict_literal_map_fst [of kms kvs] by (metis list.set_map)

lemma dict_update_other:
  "k \<notin> fst ` set kvs \<Longrightarrow> dict_update d kvs k = d k"
  unfolding dict_update_def
  by (induction kvs arbitrary: d) auto

lemma dict_update_dom:
  "dom (dict_update d kvs) = dom d \<union> fst ` set kvs"
  unfolding dict_update_def
  by (induction kvs arbitrary: d) auto

lemma collect_periods_dom:
  assumes "\<And>tag pos kvs. block tag pos = Inr kvs \<Longrightarrow> fst ` set kvs = K tag"
    and "collect_periods block cd tmc = Inr tmc'"
  shows "dom tmc' = dom tmc \<union> (\<Union>(tag, e) \<in> set cd. if truthy (check e) then K tag else {})"
  using assms(2)
proof (induction cd arbitrary: tmc)
  case Nil
  then show ?case by simp
next
  case (Cons a cd)
  obtain key val where a: "a = (key, val)" by (cases a)
  show ?case
  proof (cases "truthy (check val)")
    case True
    with Cons.prems a obtain kvs where b: "block key (table_key val) = Inr kvs"
      and c: "collect_periods block cd (dict_update tmc kvs) = Inr tmc'"
      by (auto split: sum.splits)
    from Cons.IH [OF c] assms(1) [OF b] True a show ?thesis
      by (auto simp: dict_update_dom)
  next
    case False
    with Cons.prems a have "collect_periods block cd tmc = Inr tmc'" by simp
    from Cons.IH [OF this] False a show ?thesis by auto
  qed
qed

lemma collect_periods_other:
  assumes "\<And>tag pos kvs. block tag pos = Inr kvs \<Longrightarrow> fst ` set kvs = K tag"
    and "collect_periods block cd tmc = Inr tmc'"
    and "\<And>tag e. (tag, e) \<in> set cd \<Longrightarrow> k \<notin> K tag"
  shows "tmc' k = tmc k"
  using assms(2,3)
proof (induction cd arbitrary: tmc)
  case Nil
  then show ?case by simp
next
  case (Cons a cd)
  obtain key val where a: "a = (key, val)" by (cases a)
  have notin: "k \<notin> K key" using Cons.prems(2) a by auto
  have rest: "\<And>tag e. (tag, e) \<in> set cd \<Longrightarrow> k \<notin> K tag" using Cons.prems(2) by auto
  show ?case
  proof (cases "truthy (check val)")
    case True
    with Cons.prems a obtain kvs where b: "block key (table_key val) = Inr kvs"
      and c: "collect_periods block cd (dict_update tmc kvs) = Inr tmc'"
      by (auto split: sum.splits)
    have "tmc' k = dict_update tmc kvs k" using Cons.IH [OF c rest] by simp
    moreover have "k \<notin> fst ` set kvs" using assms(1) [OF b] notin by simp
    ultimately show ?thesis by (simp add: dict_update_other)
  next
    case False
    with Cons.prems a have "collect_periods block cd tmc = Inr tmc'" by simp
    from Cons.IH [OF this rest] show ?thesis .
  qed
qed

lemma pdf_block_keys:
  "pdf_block text tag pos = Inr kvs \<Longrightarrow> fst ` set kvs = period_keys tag"
  unfolding pdf_block_def bind_err_def period_keys_def period_field_names_def
  by (clarsimp split: option.splits sum.splits dest!: dict_literal_keys
           simp del: dict_literal.simps)

lemma old_block_keys:
  "old_block soup tag pos = Inr kvs \<Longrightarrow> fst ` set kvs = period_keys tag"
  unfolding old_block_def period_keys_def period_field_names_def
  by (clarsimp split: option.splits dest!: dict_literal_keys simp del: dict_literal.simps)

lemma xlsx_block_keys:
  "xlsx_block ws tag pos = Inr kvs \<Longrightarrow> fst ` set kvs = period_keys tag"
  unfolding xlsx_block_def period_keys_def period_field_names_def
  by (clarsimp split: option.splits dest!: dict_literal_keys simp del: dict_literal.simps)

lemma shape_init: "shape detection_init"
  by (simp add: shape_def detection_init_def)

lemma map_fst_set_table_key: "map fst (set_table_key tag i cd) = map fst cd"
  by (induction cd) (auto simp: set_table_key_def)

lemma map_fst_set_check: "map fst (set_check tag v cd) = map fst cd"
  by (induction cd) (auto simp: set_check_def)

lemma shape_assign_period: "shape (assign_period i h d) = shape d"
  by (simp add: shape_def assign_period_def map_fst_set_table_key)

lemma shape_xlsx_assign: "shape (xlsx_assign i c d) = shape d"
  by (simp add: shape_def xlsx_assign_def map_fst_set_table_key)

lemma shape_detect_loop:
  "detect_loop cs d0 = Inr d \<Longrightarrow> shape d0 \<Longrightarrow> shape d"
  by (induction cs d0 rule: detect_loop.induct)
     (auto split: option.splits if_splits sum.splits simp: shape_assign_period)

lemma shape_xlsx_detect:
  "xlsx_detect tdt ws is d0 = Inr d \<Longrightarrow> shape d0 \<Longrightarrow> shape d"
  by (induction "is" arbitrary: d0)
     (auto split: option.splits if_splits sum.splits simp: shape_xlsx_assign)

lemma shape_checks:
  assumes "shape d"
  shows "\<exists>a m p. set_checks self d = [(''AM'', a), (''MD'', m), (''PM'', p)] \<and>
           check a = py_and (collect_am self) (PBool (available_am d)) \<and>
           check m = py_and (collect_md self) (PBool (available_md d)) \<and>
           check p = py_and (collect_pm self) (PBool (available_pm d))"
proof -
  from assms obtain a m p where "control_dict d = [(''AM'', a), (''MD'', m), (''PM'', p)]"
    unfolding shape_def by (auto simp: map_eq_Cons_conv)
  then show ?thesis
    by (simp add: set_checks_def set_check_def)
qed

lemma truthy_py_and: "truthy (py_and a (PBool b)) = (truthy a \<and> b)"
  by (simp add: py_and_def)

lemma base_literal:
  assumes "dict_literal ([(''date'', x), (''weather'', y), (''type'', z)] @ flag_fields self d) = Inr kvs"
  shows "\<exists>xv yv zv. kvs =
           [(''date'', xv), (''weather'', yv), (''type'', zv),
            (''AM_available'', PBool (available_am d)), (''AM_scraped'', collect_am self),
            (''MD_available'', PBool (available_md d)), (''MD_scraped'', collect_md self),
            (''PM_available'', PBool (available_pm d)), (''PM_scraped'', collect_pm self)]"
  using assms by (auto simp: flag_fields_def split: sum.splits)

lemma tag_length: "t \<in> {''AM'', ''MD'', ''PM''} \<Longrightarrow> length t = 2"
  by auto

lemma names_not_flag:
  "''_available'' \<notin> set period_field_names" "''_scraped'' \<notin> set period_field_names"
  by (simp_all add: period_field_names_def)

lemma tagged_eq:
  "t \<in> {''AM'', ''MD'', ''PM''} \<Longrightarrow> tag \<in> {''AM'', ''MD'', ''PM''} \<Longrightarrow>
   (t @ f = tag @ g) = (t = tag \<and> f = g)"
  using append_eq_append_conv [of t tag f g] tag_length [of t] tag_length [of tag] by simp

lemma flag_not_period_key:
  assumes "t \<in> {''AM'', ''MD'', ''PM''}" and "tag \<in> {''AM'', ''MD'', ''PM''}"
  shows "t @ ''_available'' \<notin> period_keys tag \<and> t @ ''_scraped'' \<notin> period_keys tag"
  using names_not_flag by (auto simp: period_keys_def tagged_eq [OF assms])

lemma period_key_tag:
  assumes "t \<in> {''AM'', ''MD'', ''PM''}" and "tag \<in> {''AM'', ''MD'', ''PM''}"
    and "f \<in> set period_field_names"
  shows "(t @ f \<in> period_keys tag) = (t = tag)"
  using assms(3) by (auto simp: period_keys_def tagged_eq [OF assms(1,2)])

lemma period_key_not_base:
  assumes "t \<in> {''AM'', ''MD'', ''PM''}" and "f \<in> set period_field_names"
  shows "t @ f \<notin> {''date'', ''weather'', ''type'', ''AM_available'', ''AM_scraped'',
               ''MD_available'', ''MD_scraped'', ''PM_available'', ''PM_scraped''}"
proof -
  from assms(1) consider "t = ''AM''" | "t = ''MD''" | "t = ''PM''" by blast
  then show ?thesis
    using names_not_flag assms(2) by cases auto
qed

lemma assembled_fields:
  assumes keys: "\<And>tag pos kvs. block tag pos = Inr kvs \<Longrightarrow> fst ` set kvs = period_keys tag"
    and sh: "shape d"
    and lit: "dict_literal ([(''date'', x), (''weather'', y), (''type'', z)] @ flag_fields self d) = Inr kvs"
    and col: "collect_periods block (set_checks self d) (dict_update Map.empty kvs) = Inr tmc"
    and t: "t \<in> {''AM'', ''MD'', ''PM''}"
    and f: "f \<in> set period_field_names"
  shows "(t @ f \<in> dom tmc) =
         (dict_get tmc (t @ ''_available'') = PBool True \<and> truthy (dict_get tmc (t @ ''_scraped'')))"
proof -
  from shape_checks [OF sh, of self] obtain a m p where
    cd: "set_checks self d = [(''AM'', a), (''MD'', m), (''PM'', p)]"
    and ca: "check a = py_and (collect_am self) (PBool (available_am d))"
    and cm: "check m = py_and (collect_md self) (PBool (available_md d))"
    and cp: "check p = py_and (collect_pm self) (PBool (available_pm d))"
    by blast
  from base_literal [OF lit] obtain xv yv zv where kvs: "kvs =
           [(''date'', xv), (''weather'', yv), (''type'', zv),
            (''AM_available'', PBool (available_am d)), (''AM_scraped'', collect_am self),
            (''MD_available'', PBool (available_md d)), (''MD_scraped'', collect_md self),
            (''PM_available'', PBool (available_pm d)), (''PM_scraped'', collect_pm self)]"
    by blast
  let ?base = "dict_update Map.empty kvs"
  have dom_base: "dom ?base = {''date'', ''weather'', ''type'', ''AM_available'', ''AM_scraped'',
               ''MD_available'', ''MD_scraped'', ''PM_available'', ''PM_scraped''}"
    by (simp add: dict_update_dom kvs)
  have tags: "\<And>tag e. (tag, e) \<in> set (set_checks self d) \<Longrightarrow> tag \<in> {''AM'', ''MD'', ''PM''}"
    by (auto simp: cd)
  have av: "tmc (t @ ''_available'') = ?base (t @ ''_available'')"
    by (rule collect_periods_other [OF keys col]) (use flag_not_period_key [OF t] tags in blast)+
  have sc: "tmc (t @ ''_scraped'') = ?base (t @ ''_scraped'')"
    by (rule collect_periods_other [OF keys col]) (use flag_not_period_key [OF t] tags in blast)+
  have dom_tmc: "dom tmc = dom ?base \<union>
      ((if truthy (check a) then period_keys ''AM'' else {}) \<union>
       (if truthy (check m) then period_keys ''MD'' else {}) \<union>
       (if truthy (check p) then period_keys ''PM'' else {}))"
    using collect_periods_dom [OF keys col] by (simp add: cd Un_assoc)
  have notbase: "t @ f \<notin> dom ?base"
    unfolding dom_base by (rule period_key_not_base [OF t f])
  have mem: "(t @ f \<in> dom tmc) =
     ((truthy (check a) \<and> t = ''AM'') \<or> (truthy (check m) \<and> t = ''MD'') \<or> (truthy (check p) \<and> t = ''PM''))"
    using notbase period_key_tag [OF t _ f, of "''AM''"] period_key_tag [OF t _ f, of "''MD''"]
      period_key_tag [OF t _ f, of "''PM''"]
    by (simp add: dom_tmc)
  from t consider "t = ''AM''" | "t = ''MD''" | "t = ''PM''" by blast
  then show ?thesis
  proof cases
    case 1
    have "(t @ f \<in> dom tmc) = truthy (check a)"
      using mem 1 by simp
    moreover have "dict_get tmc (t @ ''_available'') = PBool (available_am d)"
      using av 1 by (simp add: dict_get_def kvs dict_update_def)
    moreover have "dict_get tmc (t @ ''_scraped'') = collect_am self"
      using sc 1 by (simp add: dict_get_def kvs dict_update_def)
    ultimately show ?thesis
      by (simp add: ca truthy_py_and conj_commute)
  next
    case 2
    have "(t @ f \<in> dom tmc) = truthy (check m)"
      using mem 2 by simp
    moreover have "dict_get tmc (t @ ''_available'') = PBool (available_md d)"
      using av 2 by (simp add: dict_get_def kvs dict_update_def)
    moreover have "dict_get tmc (t @ ''_scraped'') = collect_md self"
      using sc 2 by (simp add: dict_get_def kvs dict_update_def)
    ultimately show ?thesis
      by (simp add: cm truthy_py_and conj_commute)
  next
    case 3
    have "(t @ f \<in> dom tmc) = truthy (check p)"
      using mem 3 by simp
    moreover have "dict_get tmc (t @ ''_available'') = PBool (available_pm d)"
      using av 3 by (simp add: dict_get_def kvs dict_update_def)
    moreover have "dict_get tmc (t @ ''_scraped'') = collect_pm self"
      using sc 3 by (simp add: dict_get_def kvs dict_update_def)
    ultimately show ?thesis
      by (simp add: cp truthy_py_and conj_commute)
  qed
qed

lemma assembled_flags:
  assumes keys: "\<And>tag pos kvs. block tag pos = Inr kvs \<Longrightarrow> fst ` set kvs = period_keys tag"
    and sh: "shape d"
    and lit: "dict_literal ([(''date'', x), (''weather'', y), (''type'', z)] @ flag_fields self d) = Inr kvs"
    and col: "collect_periods block (set_checks self d) (dict_update Map.empty kvs) = Inr tmc"
  shows "dict_get tmc ''AM_available'' = PBool (available_am d) \<and>
         dict_get tmc ''MD_available'' = PBool (available_md d) \<and>
         dict_get tmc ''PM_available'' = PBool (available_pm d)"
proof -
  from shape_checks [OF sh, of self] obtain a m p where
    cd: "set_checks self d = [(''AM'', a), (''MD'', m), (''PM'', p)]"
    by blast
  from base_literal [OF lit] obtain xv yv zv where kvs: "kvs =
           [(''date'', xv), (''weather'', yv), (''type'', zv),
            (''AM_available'', PBool (available_am d)), (''AM_scraped'', collect_am self),
            (''MD_available'', PBool (available_md d)), (''MD_scraped'', collect_md self),
            (''PM_available'', PBool (available_pm d)), (''PM_scraped'', collect_pm self)]"
    by blast
  let ?base = "dict_update Map.empty kvs"
  have tags: "\<And>tag e. (tag, e) \<in> set (set_checks self d) \<Longrightarrow> tag \<in> {''AM'', ''MD'', ''PM''}"
    by (auto simp: cd)
  have av: "tmc (t @ ''_available'') = ?base (t @ ''_available'')"
    if t: "t \<in> {''AM'', ''MD'', ''PM''}" for t
    by (rule collect_periods_other [OF keys col]) (use flag_not_period_key [OF t] tags in blast)+
  have "tmc ''AM_available'' = ?base ''AM_available''" using av [of "''AM''"] by simp
  moreover have "tmc ''MD_available'' = ?base ''MD_available''" using av [of "''MD''"] by simp
  moreover have "tmc ''PM_available'' = ?base ''PM_available''" using av [of "''PM''"] by simp
  ultimately show ?thesis
    by (simp add: dict_get_def kvs dict_update_def)
qed

lemma old_body_parts:
  assumes "old_scrape_tmc_body self tdt soup = Inr tmc"
  obtains d kvs where "detect_loop (old_candidates soup) detection_init = Inr d"
    and "dict_literal ([(''date'', old_get_date tdt soup), (''weather'', old_get_weather soup),
            (''type'', Inr (old_get_type soup))] @ flag_fields self d) = Inr kvs"
    and "collect_periods (old_block soup) (set_checks self d) (dict_update Map.empty kvs) = Inr tmc"
  using assms unfolding old_scrape_tmc_body_def bind_err_def
  by (auto split: sum.splits simp del: dict_literal.simps)

lemma pdf_body_parts:
  assumes "read_pdf_body self tdt text = Inr tmc"
  obtains d kvs where "detect_loop (pdf_candidates text) detection_init = Inr d"
    and "dict_literal ([(''date'', pdf_get_date tdt text), (''weather'', Inr (pdf_get_weather text)),
            (''type'', Inr (pdf_get_type text))] @ flag_fields self d) = Inr kvs"
    and "collect_periods (pdf_block text) (set_checks self d) (dict_update Map.empty kvs) = Inr tmc"
  using assms unfolding read_pdf_body_def bind_err_def
  by (auto split: sum.splits simp del: dict_literal.simps)

lemma xlsx_body_parts:
  assumes "read_xlsx_body self tdt wb = Inr tmc"
  obtains ws d kvs where "wb ''Summary'' = Some ws"
    and "xlsx_detect tdt ws [32, 62, 92] detection_init = Inr d"
    and "dict_literal ([(''date'', Inr (xlsx_get_date ws)), (''weather'', xlsx_get_weather ws),
            (''type'', Inr (xlsx_get_type ws))] @ flag_fields self d) = Inr kvs"
    and "collect_periods (xlsx_block ws) (set_checks self d) (dict_update Map.empty kvs) = Inr tmc"
  using assms unfolding read_xlsx_body_def bind_err_def
  by (auto split: sum.splits option.splits simp del: dict_literal.simps)

text \<open>
  Claim C1: in the record of a processed document of any of the three adapters, each
  of the thirteen keys of a label's block (peak hour and twelve volumes) is present
  exactly when the record's availability flag of the label is \<open>True\<close> and its scraped
  flag is truthy; otherwise the key is not in the record at all.
\<close>

theorem period_fields_iff_flags:
  assumes "old_scrape_tmc_body self tdt soup = Inr tmc \<or>
           read_pdf_body self tdt text = Inr tmc \<or>
           read_xlsx_body self tdt wb = Inr tmc"
    and "t \<in> {''AM'', ''MD'', ''PM''}" and "f \<in> set period_field_names"
  shows "(t @ f \<in> dom tmc) =
         (dict_get tmc (t @ ''_available'') = PBool True \<and> truthy (dict_get tmc (t @ ''_scraped'')))"
  using assms(1)
proof (elim disjE)
  assume "old_scrape_tmc_body self tdt soup = Inr tmc"
  then obtain d kvs where a: "detect_loop (old_candidates soup) detection_init = Inr d"
    and b: "dict_literal ([(''date'', old_get_date tdt soup), (''weather'', old_get_weather soup),
            (''type'', Inr (old_get_type soup))] @ flag_fields self d) = Inr kvs"
    and c: "collect_periods (old_block soup) (set_checks self d) (dict_update Map.empty kvs) = Inr tmc"
    by (rule old_body_parts)
  from shape_detect_loop [OF a shape_init] have "shape d" .
  from assembled_fields [OF old_block_keys this b c assms(2,3)] show ?thesis .
next
  assume "read_pdf_body self tdt text = Inr tmc"
  then obtain d kvs where a: "detect_loop (pdf_candidates text) detection_init = Inr d"
    and b: "dict_literal ([(''date'', pdf_get_date tdt text), (''weather'', Inr (pdf_get_weather text)),
            (''type'', Inr (pdf_get_type text))] @ flag_fields self d) = Inr kvs"
    and c: "collect_periods (pdf_block text) (set_checks self d) (dict_update Map.empty kvs) = Inr tmc"
    by (rule pdf_body_parts)
  from shape_detect_loop [OF a shape_init] have "shape d" .
  from assembled_fields [OF pdf_block_keys this b c assms(2,3)] show ?thesis .
next
  assume "read_xlsx_body self tdt wb = Inr tmc"
  then obtain ws d kvs where a: "xlsx_detect tdt ws [32, 62, 92] detection_init = Inr d"
    and b: "dict_literal ([(''date'', Inr (xlsx_get_date ws)), (''weather'', xlsx_get_weather ws),
            (''type'', Inr (xlsx_get_type ws))] @ flag_fields self d) = Inr kvs"
    and c: "collect_periods (xlsx_block ws) (set_checks self d) (dict_update Map.empty kvs) = Inr tmc"
    by (rule xlsx_body_parts)
  from shape_xlsx_detect [OF a shape_init] have "shape d" .
  from assembled_fields [OF xlsx_block_keys this b c assms(2,3)] show ?thesis .
qed

theorem period_fields_iff_flags_witness:
  "\<exists>tmc. read_pdf_body (WebScraper_init None) (\<lambda>s. None) two_am_pdf = Inr tmc \<and>
         ''AM_peak_hour'' \<in> dom tmc \<and> ''AM_west_veh_vol'' \<in> dom tmc \<and>
         ''MD_peak_hour'' \<notin> dom tmc \<and> ''PM_north_veh_vol'' \<notin> dom tmc"
proof -
  have "case read_pdf_body (WebScraper_init None) (\<lambda>s. None) two_am_pdf of
          Inl e \<Rightarrow> False
        | Inr tmc \<Rightarrow>
            dict_get tmc ''AM_available'' = PBool True \<and> truthy (dict_get tmc ''AM_scraped'') \<and>
            dict_get tmc ''MD_available'' = PBool False \<and>
            dict_get tmc ''PM_available'' = PBool False"
    by code_simp
  then obtain tmc where
    r: "read_pdf_body (WebScraper_init None) (\<lambda>s. None) two_am_pdf = Inr tmc"
    and am: "dict_get tmc ''AM_available'' = PBool True" "truthy (dict_get tmc ''AM_scraped'')"
    and md: "dict_get tmc ''MD_available'' = PBool False"
    and pm: "dict_get tmc ''PM_available'' = PBool False"
    by (auto split: sum.splits)
  have names: "''_peak_hour'' \<in> set period_field_names" "''_west_veh_vol'' \<in> set period_field_names"
    "''_north_veh_vol'' \<in> set period_field_names"
    by (simp_all add: period_field_names_def)
  have d: "read_pdf_body (WebScraper_init None) (\<lambda>s. None) two_am_pdf = Inr tmc \<Longrightarrow>
     old_scrape_tmc_body (WebScraper_init None) (\<lambda>s. None) two_am_soup = Inr tmc \<or>
     read_pdf_body (WebScraper_init None) (\<lambda>s. None) two_am_pdf = Inr tmc \<or>
     read_xlsx_body (WebScraper_init None) (\<lambda>s. None) Map.empty = Inr tmc"
    by simp
  note iff = period_fields_iff_flags [OF d [OF r]]
  from iff [of "''AM''" "''_peak_hour''"] iff [of "''AM''" "''_west_veh_vol''"]
       iff [of "''MD''" "''_peak_hour''"] iff [of "''PM''" "''_north_veh_vol''"]
       names am md pm r
  show ?thesis by auto
qed

section \<open>Properties of the anchors\<close>

lemma last_anchor_Cons:
  "last_anchor L (c # cs) =
     (case last_anchor L cs of
        Some j \<Rightarrow> Some j
      | None \<Rightarrow> if window_label (snd c) = L then Some (fst c) else None)"
  by (simp add: last_anchor_def split: list.splits)

lemma key_assign_period:
  assumes "shape d" and "L \<in> {AM, MD, PM}"
  shows "get_table_key (control_dict (assign_period i h d)) (label_tag L) =
         (if classify h = L then Some i else get_table_key (control_dict d) (label_tag L))"
proof -
  from assms(1) obtain a m p where "control_dict d = [(''AM'', a), (''MD'', m), (''PM'', p)]"
    unfolding shape_def by (auto simp: map_eq_Cons_conv)
  with assms(2) show ?thesis
    by (auto simp: assign_period_def classify_def set_table_key_def get_table_key_def)
qed

lemma detect_loop_anchor:
  "detect_loop cs d0 = Inr d \<Longrightarrow> shape d0 \<Longrightarrow> L \<in> {AM, MD, PM} \<Longrightarrow>
   get_table_key (control_dict d) (label_tag L) =
     (case last_anchor L cs of
        None \<Rightarrow> get_table_key (control_dict d0) (label_tag L)
      | Some j \<Rightarrow> Some j)"
proof (induction cs d0 rule: detect_loop.induct)
  case (1 d0)
  then show ?case by (simp add: last_anchor_def)
next
  case (2 i period rest d0)
  show ?case
  proof (cases period)
    case None
    with 2 show ?thesis
      by (auto simp: last_anchor_Cons window_label_def split: option.splits)
  next
    case (Some p)
    show ?thesis
    proof (cases "p = []")
      case True
      with 2 Some show ?thesis
        by (auto simp: last_anchor_Cons window_label_def split: option.splits)
    next
      case False
      with "2.prems"(1) Some obtain h where h: "py_int (take 2 p) = Inr h"
        and run: "detect_loop rest (assign_period i h d0) = Inr d"
        by (auto split: sum.splits)
      have sh: "shape (assign_period i h d0)"
        using "2.prems"(2) by (simp add: shape_assign_period)
      have wl: "window_label period = classify h"
        using Some False h by (simp add: window_label_def)
      from "2.IH"(2) [OF Some False h run sh "2.prems"(3)]
      show ?thesis
        using key_assign_period [OF "2.prems"(2,3), of i h] wl
        by (auto simp: last_anchor_Cons split: option.splits)
    qed
  qed
qed

lemma key_xlsx_assign:
  assumes "shape d"
  shows "get_table_key (control_dict (xlsx_assign i c d)) ''AM'' =
           (if i = 32 \<and> c then Some 32 else get_table_key (control_dict d) ''AM'') \<and>
         get_table_key (control_dict (xlsx_assign i c d)) ''MD'' =
           (if i = 62 \<and> c then Some 62 else get_table_key (control_dict d) ''MD'') \<and>
         get_table_key (control_dict (xlsx_assign i c d)) ''PM'' =
           (if i = 92 \<and> c then Some 92 else get_table_key (control_dict d) ''PM'')"
proof -
  from assms(1) obtain a m p where "control_dict d = [(''AM'', a), (''MD'', m), (''PM'', p)]"
    unfolding shape_def by (auto simp: map_eq_Cons_conv)
  then show ?thesis
    by (auto simp: xlsx_assign_def set_table_key_def get_table_key_def)
qed

lemma xlsx_detect_anchor:
  "xlsx_detect tdt ws is d0 = Inr d \<Longrightarrow> shape d0 \<Longrightarrow>
   get_table_key (control_dict d) ''AM'' \<in> {get_table_key (control_dict d0) ''AM'', Some 32} \<and>
   get_table_key (control_dict d) ''MD'' \<in> {get_table_key (control_dict d0) ''MD'', Some 62} \<and>
   get_table_key (control_dict d) ''PM'' \<in> {get_table_key (control_dict d0) ''PM'', Some 92}"
proof (induction "is" arbitrary: d0)
  case Nil
  then show ?case by simp
next
  case (Cons i rest)
  show ?case
  proof (cases "\<exists>period c. xlsx_get_peak_hour ws i = Some period \<and> period \<noteq> [] \<and>
                   period_check_of tdt period = Inr c")
    case True
    then obtain period c where p: "xlsx_get_peak_hour ws i = Some period" "period \<noteq> []"
      "period_check_of tdt period = Inr c" by blast
    with Cons.prems(1) have run: "xlsx_detect tdt ws rest (xlsx_assign i c d0) = Inr d"
      by simp
    have sh: "shape (xlsx_assign i c d0)"
      using Cons.prems(2) by (simp add: shape_xlsx_assign)
    from Cons.IH [OF run sh] key_xlsx_assign [OF Cons.prems(2), of i c]
    show ?thesis by (auto split: if_splits)
  next
    case False
    with Cons.prems(1) have run: "xlsx_detect tdt ws rest d0 = Inr d"
      by (auto split: option.splits if_splits sum.splits)
    from Cons.IH [OF run Cons.prems(2)] show ?thesis .
  qed
qed

lemma init_keys:
  "get_table_key (control_dict detection_init) ''AM'' = None"
  "get_table_key (control_dict detection_init) ''MD'' = None"
  "get_table_key (control_dict detection_init) ''PM'' = None"
  by (simp_all add: detection_init_def get_table_key_def)

lemma init_key_label:
  "L \<in> {AM, MD, PM} \<Longrightarrow> get_table_key (control_dict detection_init) (label_tag L) = None"
  by (auto simp: init_keys)

text \<open>
  Claim C4, as amended: in the markup and PDF adapters the anchor kept for a label is
  the index of the last candidate window that classifies to the label (a later window
  overwrites an earlier one), and no anchor is kept when no window classifies to it; in
  the spreadsheet adapter the anchor of AM, MD and PM can only be 32, 62 and 92.
\<close>

theorem last_window_wins:
  "(detect_loop cs detection_init = Inr d \<longrightarrow> L \<in> {AM, MD, PM} \<longrightarrow>
      get_table_key (control_dict d) (label_tag L) = last_anchor L cs) \<and>
   (xlsx_detect tdt ws [32, 62, 92] detection_init = Inr d' \<longrightarrow>
      get_table_key (control_dict d') ''AM'' \<in> {None, Some 32} \<and>
      get_table_key (control_dict d') ''MD'' \<in> {None, Some 62} \<and>
      get_table_key (control_dict d') ''PM'' \<in> {None, Some 92})"
proof (intro conjI impI)
  assume a: "detect_loop cs detection_init = Inr d" and l: "L \<in> {AM, MD, PM}"
  from detect_loop_anchor [OF a shape_init l] init_key_label [OF l]
  show "get_table_key (control_dict d) (label_tag L) = last_anchor L cs"
    by (simp split: option.splits)
next
  assume a: "xlsx_detect tdt ws [32, 62, 92] detection_init = Inr d'"
  from xlsx_detect_anchor [OF a shape_init]
  show "get_table_key (control_dict d') ''AM'' \<in> {None, Some 32}"
    and "get_table_key (control_dict d') ''MD'' \<in> {None, Some 62}"
    and "get_table_key (control_dict d') ''PM'' \<in> {None, Some 92}"
    by (simp_all add: init_keys)
qed

theorem last_window_wins_witness:
  "detect_loop (pdf_candidates two_am_pdf) detection_init =
     Inr \<lparr>control_dict = [(''AM'', \<lparr>check = PNone, table_key = Some 1\<rparr>),
                        (''MD'', \<lparr>check = PNone, table_key = None\<rparr>),
                        (''PM'', \<lparr>check = PNone, table_key = None\<rparr>)],
          available_am = True, available_md = False, available_pm = False\<rparr> \<and>
   last_anchor AM (pdf_candidates two_am_pdf) = Some 1 \<and>
   last_anchor MD (pdf_candidates two_am_pdf) = None \<and>
   (\<exists>d. xlsx_detect clock_parser example_sheet [32, 62, 92] detection_init = Inr d \<and>
        get_table_key (control_dict d) ''AM'' = Some 32)"
proof -
  let ?d = "\<lparr>control_dict = [(''AM'', \<lparr>check = PNone, table_key = Some 1\<rparr>),
                        (''MD'', \<lparr>check = PNone, table_key = None\<rparr>),
                        (''PM'', \<lparr>check = PNone, table_key = None\<rparr>)],
          available_am = True, available_md = False, available_pm = False\<rparr>"
  have r: "detect_loop (pdf_candidates two_am_pdf) detection_init = Inr ?d"
    by code_simp
  have "case xlsx_detect clock_parser example_sheet [32, 62, 92] detection_init of
          Inl e \<Rightarrow> False | Inr d \<Rightarrow> get_table_key (control_dict d) ''AM'' = Some 32"
    by code_simp
  then obtain d' where x: "xlsx_detect clock_parser example_sheet [32, 62, 92] detection_init = Inr d'"
    and k: "get_table_key (control_dict d') ''AM'' = Some 32"
    by (auto split: sum.splits)
  from last_window_wins [of "pdf_candidates two_am_pdf" ?d AM clock_parser example_sheet d']
       last_window_wins [of "pdf_candidates two_am_pdf" ?d MD clock_parser example_sheet d']
       r x k
  show ?thesis
    by (auto simp: get_table_key_def)
qed

text \<open>
  Two morning windows, at candidates 0 and 1 of a PDF page and at tables 2 and 3 of a
  markup page: the anchor kept for AM is the later one, 1 and 3.
\<close>

theorem first_window_counterexample:
  "window_label (Some ''07:00 - 08:00'') = AM \<and>
   window_label (Some ''07:30 - 08:30'') = AM \<and>
   pdf_candidates two_am_pdf = [(0, Some ''07:00 - 08:00''), (1, Some ''07:30 - 08:30'')] \<and>
   detect_loop (pdf_candidates two_am_pdf) detection_init =
     Inr \<lparr>control_dict = [(''AM'', \<lparr>check = PNone, table_key = Some 1\<rparr>),
                        (''MD'', \<lparr>check = PNone, table_key = None\<rparr>),
                        (''PM'', \<lparr>check = PNone, table_key = None\<rparr>)],
          available_am = True, available_md = False, available_pm = False\<rparr> \<and>
   old_candidates two_am_soup =
     [(2, Some ''07:00 - 08:00''), (3, Some ''07:30 - 08:30''), (4, None)] \<and>
   detect_loop (old_candidates two_am_soup) detection_init =
     Inr \<lparr>control_dict = [(''AM'', \<lparr>check = PNone, table_key = Some 3\<rparr>),
                        (''MD'', \<lparr>check = PNone, table_key = None\<rparr>),
                        (''PM'', \<lparr>check = PNone, table_key = None\<rparr>)],
          available_am = True, available_md = False, available_pm = False\<rparr>"
  by code_simp

section \<open>Properties of the spreadsheet windows\<close>

lemma peak_hour_nonempty: "xlsx_get_peak_hour ws i = Some period \<Longrightarrow> period \<noteq> []"
  by (auto simp: xlsx_get_peak_hour_def Let_def split: if_splits)

lemma period_check_window:
  "xlsx_get_peak_hour ws i = Some period \<Longrightarrow> period_check_of tdt period = Inr c \<Longrightarrow>
   window_is_one_hour tdt ws i = c"
  by (auto simp: period_check_of_def window_is_one_hour_def Let_def split: option.splits)

lemma no_window_not_hour:
  "xlsx_get_peak_hour ws i = None \<Longrightarrow> \<not> window_is_one_hour tdt ws i"
  by (simp add: window_is_one_hour_def)

lemma flags_xlsx_assign:
  "available_am (xlsx_assign i c d) = (available_am d \<or> (i = 32 \<and> c))"
  "available_md (xlsx_assign i c d) = (available_md d \<or> (i = 62 \<and> c))"
  "available_pm (xlsx_assign i c d) = (available_pm d \<or> (i = 92 \<and> c))"
  by (auto simp: xlsx_assign_def)

lemma xlsx_detect_flags:
  "xlsx_detect tdt ws is d0 = Inr d \<Longrightarrow>
   available_am d = (available_am d0 \<or> (32 \<in> set is \<and> window_is_one_hour tdt ws 32)) \<and>
   available_md d = (available_md d0 \<or> (62 \<in> set is \<and> window_is_one_hour tdt ws 62)) \<and>
   available_pm d = (available_pm d0 \<or> (92 \<in> set is \<and> window_is_one_hour tdt ws 92))"
proof (induction "is" arbitrary: d0)
  case Nil
  then show ?case by simp
next
  case (Cons i rest)
  show ?case
  proof (cases "xlsx_get_peak_hour ws i")
    case None
    with Cons.prems have run: "xlsx_detect tdt ws rest d0 = Inr d" by simp
    from Cons.IH [OF run] no_window_not_hour [OF None, of tdt] show ?thesis
      by auto
  next
    case (Some period)
    from peak_hour_nonempty [OF Some] Cons.prems Some obtain c where
      c: "period_check_of tdt period = Inr c"
      and run: "xlsx_detect tdt ws rest (xlsx_assign i c d0) = Inr d"
      by (auto split: sum.splits)
    from Cons.IH [OF run] period_check_window [OF Some c] show ?thesis
      by (auto simp: flags_xlsx_assign)
  qed
qed

text \<open>
  Claim C8: in the record of a spreadsheet document the availability flag of AM, MD and
  PM is \<open>True\<close> exactly when the anchor 32, 62 and 92 yields a window whose parsed end
  is 3600 seconds after its parsed start, whatever else the worksheet holds.
\<close>

theorem spreadsheet_availability:
  assumes "read_xlsx_body self tdt wb = Inr tmc"
  shows "\<exists>ws. wb ''Summary'' = Some ws \<and>
           dict_get tmc ''AM_available'' = PBool (window_is_one_hour tdt ws 32) \<and>
           dict_get tmc ''MD_available'' = PBool (window_is_one_hour tdt ws 62) \<and>
           dict_get tmc ''PM_available'' = PBool (window_is_one_hour tdt ws 92)"
proof -
  from assms obtain ws d kvs where w: "wb ''Summary'' = Some ws"
    and a: "xlsx_detect tdt ws [32, 62, 92] detection_init = Inr d"
    and b: "dict_literal ([(''date'', Inr (xlsx_get_date ws)), (''weather'', xlsx_get_weather ws),
            (''type'', Inr (xlsx_get_type ws))] @ flag_fields self d) = Inr kvs"
    and c: "collect_periods (xlsx_block ws) (set_checks self d) (dict_update Map.empty kvs) = Inr tmc"
    by (rule xlsx_body_parts)
  from shape_xlsx_detect [OF a shape_init] have sh: "shape d" .
  from xlsx_detect_flags [OF a] have
    "available_am d = window_is_one_hour tdt ws 32"
    "available_md d = window_is_one_hour tdt ws 62"
    "available_pm d = window_is_one_hour tdt ws 92"
    by (simp_all add: detection_init_def)
  with assembled_flags [OF xlsx_block_keys sh b c] w show ?thesis
    by simp
qed

lemma example_xlsx_runs:
  "case read_xlsx_body (WebScraper_init None) clock_parser [''Summary'' \<mapsto> example_sheet] of
     Inl e \<Rightarrow> False | Inr tmc \<Rightarrow> True"
  by code_simp

theorem spreadsheet_availability_witness:
  "\<exists>tmc. read_xlsx_body (WebScraper_init None) clock_parser [''Summary'' \<mapsto> example_sheet] = Inr tmc \<and>
         dict_get tmc ''AM_available'' = PBool True \<and>
         dict_get tmc ''MD_available'' = PBool False \<and>
         xlsx_get_peak_hour example_sheet 62 = Some ''11:00 - 12:30''"
proof -
  from example_xlsx_runs obtain tmc where
    r: "read_xlsx_body (WebScraper_init None) clock_parser [''Summary'' \<mapsto> example_sheet] = Inr tmc"
    by (auto split: sum.splits)
  have h: "window_is_one_hour clock_parser example_sheet 32"
    "\<not> window_is_one_hour clock_parser example_sheet 62"
    by code_simp+
  have p: "xlsx_get_peak_hour example_sheet 62 = Some ''11:00 - 12:30''"
    by code_simp
  from spreadsheet_availability [OF r] h p r show ?thesis
    by auto
qed

section \<open>Properties of the pedestrian and bicycle volumes\<close>

lemma py_index_map:
  "py_index (map g xs) i = (case py_index xs i of Inl e \<Rightarrow> Inl e | Inr x \<Rightarrow> Inr (g x))"
  by (auto simp: py_index_def)

lemma py_index_Inr_nonempty: "py_index xs i = Inr x \<Longrightarrow> xs \<noteq> []"
  by (auto simp: py_index_def split: if_splits)

lemma item_position: "item_or_none (Some numbers) n = Inr (position_value numbers n)"
  by (simp add: item_or_none_def position_value_def)

text \<open>
  Claim C5, as amended: of the first eight keyword-tagged numbers of the segment,
  position 0 is the north bicycle volume, 1 north pedestrians, 2 west bicycles, 3 west
  pedestrians, 4 east pedestrians, 5 east bicycles, 6 south pedestrians and 7 south
  bicycles; a position beyond the length of the list gives \<open>None\<close>.
\<close>

theorem peds_and_bikes_positions:
  assumes "pdf_block text tag (Some key) = Inr kvs"
  shows "\<exists>section numbers.
           py_index (split_sections text) key = Inr section \<and>
           numbers = take 8 (map snd (keyword_numbers section)) \<and>
           map_of kvs (tag @ ''_north_bikes_vol'') = Some (position_value numbers 0) \<and>
           map_of kvs (tag @ ''_north_peds_vol'') = Some (position_value numbers 1) \<and>
           map_of kvs (tag @ ''_west_bikes_vol'') = Some (position_value numbers 2) \<and>
           map_of kvs (tag @ ''_west_peds_vol'') = Some (position_value numbers 3) \<and>
           map_of kvs (tag @ ''_east_peds_vol'') = Some (position_value numbers 4) \<and>
           map_of kvs (tag @ ''_east_bikes_vol'') = Some (position_value numbers 5) \<and>
           map_of kvs (tag @ ''_south_peds_vol'') = Some (position_value numbers 6) \<and>
           map_of kvs (tag @ ''_south_bikes_vol'') = Some (position_value numbers 7)"
proof -
  from assms obtain pb veh where pb: "get_peds_and_bikes_vol text key = Inr pb"
    and veh: "get_veh_vol text key = Inr veh"
    and lit: "dict_literal
              [(tag @ ''_peak_hour'', pdf_get_peak_hour text key),
               (tag @ ''_north_bikes_vol'', item_or_none pb 0),
               (tag @ ''_north_peds_vol'', item_or_none pb 1),
               (tag @ ''_north_veh_vol'', Inr (dict_get veh ''north'')),
               (tag @ ''_east_bikes_vol'', item_or_none pb 5),
               (tag @ ''_east_peds_vol'', item_or_none pb 4),
               (tag @ ''_east_veh_vol'', Inr (dict_get veh ''east'')),
               (tag @ ''_south_bikes_vol'', item_or_none pb 7),
               (tag @ ''_south_peds_vol'', item_or_none pb 6),
               (tag @ ''_south_veh_vol'', Inr (dict_get veh ''south'')),
               (tag @ ''_west_bikes_vol'', item_or_none pb 2),
               (tag @ ''_west_peds_vol'', item_or_none pb 3),
               (tag @ ''_west_veh_vol'', Inr (dict_get veh ''west''))] = Inr kvs"
    unfolding pdf_block_def bind_err_def
    by (auto split: sum.splits simp del: dict_literal.simps)
  from veh obtain sect where sec: "py_index (split_sections text) key = Inr sect"
    unfolding get_veh_vol_def bind_err_def by (auto split: sum.splits)
  define numbers where "numbers = take 8 (map snd (keyword_numbers sect))"
  have "pb = Some numbers"
    using pb sec py_index_Inr_nonempty [OF sec]
    by (simp add: get_peds_and_bikes_vol_def Let_def bind_err_def py_index_map numbers_def)
  with lit have "\<exists>ph. kvs =
              [(tag @ ''_peak_hour'', ph),
               (tag @ ''_north_bikes_vol'', position_value numbers 0),
               (tag @ ''_north_peds_vol'', position_value numbers 1),
               (tag @ ''_north_veh_vol'', dict_get veh ''north''),
               (tag @ ''_east_bikes_vol'', position_value numbers 5),
               (tag @ ''_east_peds_vol'', position_value numbers 4),
               (tag @ ''_east_veh_vol'', dict_get veh ''east''),
               (tag @ ''_south_bikes_vol'', position_value numbers 7),
               (tag @ ''_south_peds_vol'', position_value numbers 6),
               (tag @ ''_south_veh_vol'', dict_get veh ''south''),
               (tag @ ''_west_bikes_vol'', position_value numbers 2),
               (tag @ ''_west_peds_vol'', position_value numbers 3),
               (tag @ ''_west_veh_vol'', dict_get veh ''west'')]"
    by (auto simp: item_position split: sum.splits)
  then obtain ph where kvs: "kvs =
              [(tag @ ''_peak_hour'', ph),
               (tag @ ''_north_bikes_vol'', position_value numbers 0),
               (tag @ ''_north_peds_vol'', position_value numbers 1),
               (tag @ ''_north_veh_vol'', dict_get veh ''north''),
               (tag @ ''_east_bikes_vol'', position_value numbers 5),
               (tag @ ''_east_peds_vol'', position_value numbers 4),
               (tag @ ''_east_veh_vol'', dict_get veh ''east''),
               (tag @ ''_south_bikes_vol'', position_value numbers 7),
               (tag @ ''_south_peds_vol'', position_value numbers 6),
               (tag @ ''_south_veh_vol'', dict_get veh ''south''),
               (tag @ ''_west_bikes_vol'', position_value numbers 2),
               (tag @ ''_west_peds_vol'', position_value numbers 3),
               (tag @ ''_west_veh_vol'', dict_get veh ''west'')]"
    by blast
  show ?thesis
    using sec numbers_def by (simp add: kvs)
qed

theorem peds_and_bikes_positions_witness:
  "\<exists>kvs. pdf_block two_am_pdf ''AM'' (Some 0) = Inr kvs \<and>
         map_of kvs ''AM_north_bikes_vol'' = Some (PStr ''1'') \<and>
         map_of kvs ''AM_north_peds_vol'' = Some (PStr ''2'') \<and>
         map_of kvs ''AM_west_bikes_vol'' = Some (PStr ''3'') \<and>
         map_of kvs ''AM_south_bikes_vol'' = Some (PStr ''8'')"
proof -
  have "case pdf_block two_am_pdf ''AM'' (Some 0) of Inl e \<Rightarrow> False | Inr kvs \<Rightarrow> True"
    by code_simp
  then obtain kvs where r: "pdf_block two_am_pdf ''AM'' (Some 0) = Inr kvs"
    by (auto split: sum.splits)
  have s: "py_index (split_sections two_am_pdf) 0 = Inr example_section"
    by (simp add: py_index_def two_am_pdf_def)
  from peds_and_bikes_positions [OF r] s r show ?thesis
    by (auto simp: position_value_def example_section_def)
qed

text \<open>
  On the example page the number at position 0 is stored as the north bicycle volume
  and the number at position 1 as the north pedestrian volume.
\<close>

theorem positions_counterexample:
  "map snd (keyword_numbers (split_sections two_am_pdf ! 0)) ! 0 = ''1'' \<and>
   block_value (pdf_block two_am_pdf ''AM'' (Some 0)) ''AM_north_peds_vol'' = Some (PStr ''2'') \<and>
   block_value (pdf_block two_am_pdf ''AM'' (Some 0)) ''AM_north_bikes_vol'' = Some (PStr ''1'') \<and>
   block_value (pdf_block two_am_pdf ''AM'' (Some 0)) ''AM_west_peds_vol'' = Some (PStr ''4'')"
  by code_simp

section \<open>Field lookups of the markup adapter\<close>

text \<open>
  Claim C7 says that a field whose element holds no usable digits is absent and the
  record is still emitted. On a page whose north bicycle element reads \<open>Bikes\<close>,
  \<open>_get_north_bikes_vol\<close> raises \<open>IndexError\<close> and \<open>_scrape_tmc\<close> returns \<open>None\<close> for the
  whole document, while \<open>_get_north_veh_vol\<close> on the same page returns \<open>None\<close> for its
  field.
\<close>

theorem missing_digits_skip_document:
  "no_digits_soup ''table:nth-of-type(2) [valign='BOTTOM'] tr:-soup-contains('Bikes') tr:nth-of-type(1)''
     = [\<lparr>elem_text = ''Bikes'', elem_str = []\<rparr>] \<and>
   get_north_bikes_vol no_digits_soup 2 = Inl IndexError \<and>
   get_north_veh_vol no_digits_soup 2 = Inr PNone \<and>
   raised (old_scrape_tmc_body (WebScraper_init None) (\<lambda>s. None) no_digits_soup) = Some IndexError \<and>
   old_scrape_tmc (WebScraper_init None) (\<lambda>s. None) (\<lambda>url. Inr no_digits_soup) (Some ''doc'') = None"
  by code_simp

end
